theory Spec2Isabelle
  imports Complex_Main
begin

section \<open>JavaScript values\<close>

text \<open>
  The relay \<^verbatim>\<open>server.mjs\<close> exists in two variants (an HTML/CSS one and a later HTML/CSS/JS
  one). Both are embedded; names of the first variant end in \<open>1\<close>, those of the second in
  \<open>2\<close>. The request body is whatever \<^verbatim>\<open>express.json()\<close> parsed, so every field is an
  arbitrary JSON value or is missing (\<^verbatim>\<open>undefined\<close>).

  Strings are byte strings (UTF-8). Numbers carry their numeric value; the handler only
  tests them against zero and prints them inside a template literal, and the printing
  function \<^verbatim>\<open>Number.prototype.toString\<close> is a parameter \<open>ns\<close> of the model.
\<close>

datatype jsval =
    JUndefined
  | JNull
  | JBool bool
  | JNum rat
  | JStr string
  | JArr "jsval list"
  | JObj "(string \<times> jsval) list"

datatype exn =
    TypeError (message: string)
  | SyntaxError (message: string)
  | Error (message: string)

text \<open>\<^verbatim>\<open>!v\<close> is \<open>\<not> truthy v\<close>.\<close>

fun truthy :: "jsval \<Rightarrow> bool" where
  "truthy JUndefined = False"
| "truthy JNull = False"
| "truthy (JBool b) = b"
| "truthy (JNum n) = (n \<noteq> 0)"
| "truthy (JStr s) = (s \<noteq> [])"
| "truthy (JArr xs) = True"
| "truthy (JObj kvs) = True"

text \<open>\<^verbatim>\<open>a || b\<close> and \<^verbatim>\<open>a ?? b\<close>.\<close>

definition or_else :: "jsval \<Rightarrow> jsval \<Rightarrow> jsval" where
  "or_else a b = (if truthy a then a else b)"

definition nullish :: "jsval \<Rightarrow> jsval \<Rightarrow> jsval" where
  "nullish a b = (if a = JUndefined \<or> a = JNull then b else a)"

text \<open>A default in a destructuring pattern (\<^verbatim>\<open>history = []\<close>) applies to \<^verbatim>\<open>undefined\<close> only.\<close>

definition default_to :: "jsval \<Rightarrow> jsval \<Rightarrow> jsval" where
  "default_to v d = (if v = JUndefined then d else v)"

text \<open>
  The own property \<open>k\<close> of a value. An object lists its members in the order of the JSON
  text, and of two members with one key \<^verbatim>\<open>JSON.parse\<close> keeps the later. The keys the
  program reads (\<^verbatim>\<open>prompt\<close>, \<^verbatim>\<open>history\<close>, \<^verbatim>\<open>state\<close>, \<^verbatim>\<open>html\<close>, \<^verbatim>\<open>css\<close>, \<^verbatim>\<open>js\<close>, \<^verbatim>\<open>choices\<close>,
  \<^verbatim>\<open>message\<close>, \<^verbatim>\<open>content\<close>) are on no prototype, so a value that is not a plain object
  has none of them.
\<close>

fun own_prop :: "jsval \<Rightarrow> string \<Rightarrow> jsval" where
  "own_prop (JObj kvs) k = (case map_of (rev kvs) k of None \<Rightarrow> JUndefined | Some v \<Rightarrow> v)"
| "own_prop v k = JUndefined"

text \<open>\<^verbatim>\<open>v.k\<close>: reading a property of \<^verbatim>\<open>null\<close> or \<^verbatim>\<open>undefined\<close> throws.\<close>

definition get :: "jsval \<Rightarrow> string \<Rightarrow> exn + jsval" where
  "get v k =
     (if v = JUndefined
      then Inl (TypeError (''Cannot read properties of undefined (reading '' @ [CHR 0x27] @ k @ [CHR 0x27] @ '')''))
      else if v = JNull
      then Inl (TypeError (''Cannot read properties of null (reading '' @ [CHR 0x27] @ k @ [CHR 0x27] @ '')''))
      else Inr (own_prop v k))"

text \<open>\<^verbatim>\<open>v?.k\<close> and \<^verbatim>\<open>v?.[0]\<close>.\<close>

definition opt_get :: "jsval \<Rightarrow> string \<Rightarrow> jsval" where
  "opt_get v k = (if v = JUndefined \<or> v = JNull then JUndefined else own_prop v k)"

definition is_continuation :: "char \<Rightarrow> bool" where
  "is_continuation c = (128 \<le> (of_char c :: nat) \<and> (of_char c :: nat) < 192)"

text \<open>The code points of a string, each as a string of its own bytes.\<close>

function code_points :: "string \<Rightarrow> string list" where
  "code_points [] = []"
| "code_points (c # cs) =
     (c # takeWhile is_continuation cs) # code_points (dropWhile is_continuation cs)"
  by pat_completeness auto
termination
  by (relation "measure length") (auto simp: less_Suc_eq_le length_dropWhile_le)

fun opt_index0 :: "jsval \<Rightarrow> jsval" where
  "opt_index0 (JArr xs) = (case xs of [] \<Rightarrow> JUndefined | x # _ \<Rightarrow> x)"
| "opt_index0 (JStr s) = (case code_points s of [] \<Rightarrow> JUndefined | c # _ \<Rightarrow> JStr c)"
| "opt_index0 (JObj kvs) = own_prop (JObj kvs) ''0''"
| "opt_index0 v = JUndefined"

text \<open>
  What \<^verbatim>\<open>for (const x of v)\<close> iterates over: the elements of an array, the code points of
  a string; nothing else that JSON can produce is iterable.
\<close>

fun iterate :: "jsval \<Rightarrow> exn + jsval list" where
  "iterate (JArr xs) = Inr xs"
| "iterate (JStr s) = Inr (map JStr (code_points s))"
| "iterate v = Inl (TypeError ''history is not iterable'')"

text \<open>
  The conversion to a string that a template literal applies to \<^verbatim>\<open>${v}\<close>. An array joins
  its elements with commas (\<^verbatim>\<open>null\<close> and \<^verbatim>\<open>undefined\<close> elements print as nothing); a plain
  object prints as \<^verbatim>\<open>[object Object]\<close>, unless it has an own property \<^verbatim>\<open>toString\<close>, which
  from JSON is never callable, and then the conversion throws.
\<close>

fun to_string :: "(rat \<Rightarrow> string) \<Rightarrow> jsval \<Rightarrow> exn + string"
  and join_elems :: "(rat \<Rightarrow> string) \<Rightarrow> jsval list \<Rightarrow> exn + string" where
  "to_string ns JUndefined = Inr ''undefined''"
| "to_string ns JNull = Inr ''null''"
| "to_string ns (JBool b) = Inr (if b then ''true'' else ''false'')"
| "to_string ns (JNum n) = Inr (ns n)"
| "to_string ns (JStr s) = Inr s"
| "to_string ns (JArr xs) = join_elems ns xs"
| "to_string ns (JObj kvs) =
     (if ''toString'' \<in> fst ` set kvs
      then Inl (TypeError ''Cannot convert object to primitive value'')
      else Inr ''[object Object]'')"
| "join_elems ns [] = Inr []"
| "join_elems ns (x # xs) =
     (case (if x = JUndefined \<or> x = JNull then Inr [] else to_string ns x) of
        Inl e \<Rightarrow> Inl e
      | Inr s \<Rightarrow>
         (if xs = [] then Inr s
          else case join_elems ns xs of Inl e \<Rightarrow> Inl e | Inr t \<Rightarrow> Inr (s @ '','' @ t)))"

section \<open>Text of the prompts\<close>

definition nb_hyphen :: string where
  \<comment> \<open>U+2011, non-breaking hyphen\<close>
  "nb_hyphen = [CHR 0xE2, CHR 0x80, CHR 0x91]"

definition en_dash :: string where
  \<comment> \<open>U+2013\<close>
  "en_dash = [CHR 0xE2, CHR 0x80, CHR 0x93]"

text \<open>A template literal, line by line: the lines are separated by one line feed.\<close>

fun join_lines :: "string list \<Rightarrow> string" where
  "join_lines [] = []"
| "join_lines [l] = l"
| "join_lines (l # m # ls) = l @ CHR 0x0A # join_lines (m # ls)"

definition is_space :: "char \<Rightarrow> bool" where
  "is_space c = (c \<in> set [CHR 0x09, CHR 0x0A, CHR 0x0B, CHR 0x0C, CHR 0x0D, CHR 0x20])"

text \<open>
  \<^verbatim>\<open>String.prototype.trim\<close>. Both strings it is applied to begin and end with a line feed
  next to literal text of the template, so only ASCII white space is ever looked at.
\<close>

definition trim :: "string \<Rightarrow> string" where
  "trim s = rev (dropWhile is_space (rev (dropWhile is_space s)))"

definition instructions1 :: "string list" where
  \<comment> \<open>lines 37-63 of the template literal of variant 1\<close>
  "instructions1 =
    [(''You are a front'' @ nb_hyphen @ ''end assistant. The user is editing a web page.''),
     ''The HTML you're working on is placed inside the the #demo-root element of a following structure'',
     ''```html'',
     ''<!DOCTYPE html>'',
     ''<html lang=\"en\">'',
     '' <head>'',
     ''  <meta charset=\"UTF-8\">'',
     ''  <title>WIP</title>'',
     ''  <style id=\"demo-style\">'',
     ''  /* CSS you return is placed here (and to document.adoptedStyleSheets) */'',
     ''  </style>'',
     '' </head>'',
     '' <body>'',
     ''  <div id=\"app\">'',
     ''   <div id=\"demo-root\">'',
     (''    <!-- Demo area '' @ en_dash @ '' HTML you return is placed here -->''),
     ''   </div>'',
     ''   <!-- Other things you don't need to care about -->'',
     ''  </div>'',
     '' </body>'',
     ''</html>'',
     ''```'',
     ''The HTML content is placed within a div block inside a body, so your response can't use html, head, title, body, etc tags.'',
     ''When the user wants you to add CSS to the whole page (like a background), add it to #demo-root instead of html or body.'',
     '''',
     ''Current HTML (inside #demo-root):'',
     ''```html'']"

definition css_heading1 :: "string list" where
  \<comment> \<open>lines 65-68\<close>
  "css_heading1 =
    [''```'',
     '''',
     ''Current CSS (scoped to #demo-root):'',
     ''```css'']"

definition closing1 :: "string list" where
  \<comment> \<open>lines 70-73\<close>
  "closing1 =
    [''```'',
     '''',
     ''Only respond with **complete** HTML and/or CSS wrapped in fenced code blocks. Additions must also include the existing content, they replace the old content completely.'',
     ''When making only style changes, omit html, when making only HTML changes, omit css.'']"

definition instructions2 :: "string list" where
  \<comment> \<open>lines 185-206 of the template literal of variant 2\<close>
  "instructions2 =
    [(''You are a front'' @ nb_hyphen @ ''end assistant. The user is editing a web page.''),
     ''The HTML you're working on is placed inside the the #demo-root element of a following structure'',
     ''```html'',
     ''<!DOCTYPE html>'',
     ''<html lang=\"en\">'',
     '' <head>'',
     ''  <meta charset=\"UTF-8\">'',
     ''  <title>WIP</title>'',
     ''  <style id=\"demo-style\">/* CSS you return is placed here (and to document.adoptedStyleSheets) */</style>'',
     '' </head>'',
     ('' <body id=\"demo-root\"><!-- Demo area '' @ en_dash @ '' HTML you return is placed here --></body>''),
     ''</html>'',
     ''```'',
     ''The HTML content is placed within a body tag, so your response can't use html, head, title, body, etc tags.'',
     '''',
     ''When you need JavaScript, return it in a fenced block labelled `js` (or `javascript`).'',
     '''',
     ''Only respond with **complete** HTML and/or CSS and/or JS wrapped in fenced code blocks. If you output a block of specific type, it overrides all the previous content of the same type. So additions must also contain all the previous content.'',
     '''',
     ''If there's no change to a type of resource, omit any blocks of that type (existing content can/will be cleared by an empty block). E.g. No js change -> don't output a js block.'',
     '''',
     ''The user may be requesting things one at a time. Try your best to avoid changing things you're not asked to change.'']"

definition html_heading2 :: "string list" where
  \<comment> \<open>lines 218-219\<close>
  "html_heading2 =
    [''Current HTML (inside #demo-root):'',
     ''```html'']"

definition css_heading2 :: "string list" where
  \<comment> \<open>lines 221-224\<close>
  "css_heading2 =
    [''```'',
     '''',
     ''Current CSS (scoped to #demo-root):'',
     ''```css'']"

definition js_heading2 :: "string list" where
  \<comment> \<open>lines 226-229\<close>
  "js_heading2 =
    [''```'',
     '''',
     ''Current JavaScript (executed inside the iframe):'',
     ''```js'']"

definition closing2 :: "string list" where
  \<comment> \<open>line 231\<close>
  "closing2 =
    [''```'']"

text \<open>Variant 1: the template literal \<^verbatim>\<open>system\<close>, with its two substitutions.\<close>

definition system1 :: "string \<Rightarrow> string \<Rightarrow> string" where
  "system1 html css =
     join_lines ([''''] @ instructions1 @ [html] @ css_heading1 @ [css] @ closing1 @ [''''])"

text \<open>Variant 2: the constant \<^verbatim>\<open>system\<close>, and the template literal of the state message.\<close>

definition system2 :: string where
  "system2 = trim (join_lines ([''''] @ instructions2 @ ['''']))"

definition state_text2 :: "string \<Rightarrow> string \<Rightarrow> string \<Rightarrow> string" where
  "state_text2 html css js =
     join_lines (html_heading2 @ [html] @ css_heading2 @ [css] @ js_heading2 @ [js] @ closing2)"

section \<open>Building the message list\<close>

datatype role = System | User | Assistant

record message =
  role :: role
  content :: jsval

text \<open>The substitution \<^verbatim>\<open>${state.k || "placeholder"}\<close>.\<close>

definition substitution :: "(rat \<Rightarrow> string) \<Rightarrow> jsval \<Rightarrow> string \<Rightarrow> string \<Rightarrow> exn + string" where
  "substitution ns state k placeholder =
     (case get state k of
        Inl e \<Rightarrow> Inl e
      | Inr v \<Rightarrow> to_string ns (or_else v (JStr placeholder)))"

text \<open>
  The loop \<^verbatim>\<open>for (const userPrompt of history) { msgs.push(...); msgs.push(...); }\<close> over
  the elements the iterator yields, \<open>msgs\<close> being the array built so far.
\<close>

fun replay :: "jsval list \<Rightarrow> message list \<Rightarrow> message list" where
  "replay [] msgs = msgs"
| "replay (userPrompt # rest) msgs =
     replay rest
       ((msgs @ [\<lparr>role = User, content = userPrompt\<rparr>])
          @ [\<lparr>role = Assistant, content = JStr ''Request completed''\<rparr>])"

definition buildMessages1 :: "(rat \<Rightarrow> string) \<Rightarrow> jsval \<Rightarrow> jsval \<Rightarrow> exn + message list" where
  "buildMessages1 ns history0 state0 =
     (let history = default_to history0 (JArr []);
          state = default_to state0 (JObj []);
          msgs = []
      in case substitution ns state ''html'' ''<!-- none -->'' of
           Inl e \<Rightarrow> Inl e
         | Inr html \<Rightarrow>
        (case substitution ns state ''css'' ''/* none */'' of
           Inl e \<Rightarrow> Inl e
         | Inr css \<Rightarrow>
        (let system = system1 html css;
             msgs = msgs @ [\<lparr>role = System, content = JStr (trim system)\<rparr>]
         in case iterate history of
              Inl e \<Rightarrow> Inl e
            | Inr elems \<Rightarrow> Inr (replay elems msgs))))"

definition buildMessages2 :: "(rat \<Rightarrow> string) \<Rightarrow> jsval \<Rightarrow> jsval \<Rightarrow> exn + message list" where
  "buildMessages2 ns history0 state0 =
     (let history = default_to history0 (JArr []);
          state = default_to state0 (JObj []);
          msgs = [];
          msgs = msgs @ [\<lparr>role = System, content = JStr system2\<rparr>]
      in case iterate history of
           Inl e \<Rightarrow> Inl e
         | Inr elems \<Rightarrow>
        (let msgs = replay elems msgs
         in case substitution ns state ''html'' ''<!-- none -->'' of
              Inl e \<Rightarrow> Inl e
            | Inr html \<Rightarrow>
           (case substitution ns state ''css'' ''/* none */'' of
              Inl e \<Rightarrow> Inl e
            | Inr css \<Rightarrow>
           (case substitution ns state ''js'' ''// none'' of
              Inl e \<Rightarrow> Inl e
            | Inr js \<Rightarrow>
                Inr (msgs @ [\<lparr>role = System, content = JStr (state_text2 html css js)\<rparr>])))))"

section \<open>The route handler\<close>

text \<open>The configuration read from the environment when the process starts.\<close>

record config =
  env_OPENAI_API_KEY :: "string option"
  env_OPENAI_ENDPOINT :: "string option"

definition OPENAI_ENDPOINT :: "config \<Rightarrow> string" where
  "OPENAI_ENDPOINT cfg =
     (case env_OPENAI_ENDPOINT cfg of
        None \<Rightarrow> ''https://api.openai.com/v1/chat/completions''
      | Some e \<Rightarrow> if e \<noteq> [] then e else ''https://api.openai.com/v1/chat/completions'')"

definition MODEL :: string where
  "MODEL = ''gpt-4o-mini''"

text \<open>
  The object given to \<^verbatim>\<open>JSON.stringify\<close> for the body of the upstream request;
  \<open>reasoning_format = None\<close> when the object has no such key.
\<close>

record completion =
  model :: string
  temperature :: rat
  messages :: "message list"
  stream :: bool
  reasoning_format :: "string option"

record fetch_request =
  url :: string
  http_method :: string
  headers :: "(string \<times> string) list"
  payload :: completion

text \<open>
  What the handler observes of the upstream response: \<^verbatim>\<open>response.ok\<close> (the status is
  2xx), and what \<^verbatim>\<open>await response.text()\<close> and \<^verbatim>\<open>await response.json()\<close> give, each of
  which may throw instead.
\<close>

record response =
  status :: nat
  resp_text :: "exn + string"
  resp_json :: "exn + jsval"

definition ok :: "response \<Rightarrow> bool" where
  "ok r = (200 \<le> status r \<and> status r \<le> 299)"

datatype log_arg = LStr string | LMessages "message list" | LExn exn

datatype effect =
    Console_info "log_arg list"
  | Console_error "log_arg list"
  | Fetch fetch_request

text \<open>
  A run of the handler ends with a response sent (\<^verbatim>\<open>res.status(n).json(b)\<close>), or with an
  exception that leaves the handler, no response being sent.
\<close>

datatype outcome = Responded nat jsval | Escaped exn

record result =
  effects :: "effect list"
  outcome :: outcome

definition authorization :: "config \<Rightarrow> string" where
  "authorization cfg =
     ''Bearer '' @ (case env_OPENAI_API_KEY cfg of None \<Rightarrow> ''undefined'' | Some k \<Rightarrow> k)"

definition request1 :: "config \<Rightarrow> message list \<Rightarrow> fetch_request" where
  "request1 cfg msgs =
     \<lparr>url = OPENAI_ENDPOINT cfg, http_method = ''POST'',
      headers = [(''Content-Type'', ''application/json''), (''Authorization'', authorization cfg)],
      payload = \<lparr>model = MODEL, temperature = 7 / 10, messages = msgs, stream = False,
                 reasoning_format = None\<rparr>\<rparr>"

definition request2 :: "config \<Rightarrow> message list \<Rightarrow> fetch_request" where
  "request2 cfg msgs =
     \<lparr>url = OPENAI_ENDPOINT cfg, http_method = ''POST'',
      headers = [(''Content-Type'', ''application/json''), (''Authorization'', authorization cfg)],
      payload = \<lparr>model = MODEL, temperature = 8 / 10, messages = msgs, stream = False,
                 reasoning_format = Some ''auto''\<rparr>\<rparr>"

text \<open>The \<^verbatim>\<open>catch (e)\<close> clause, after the effects \<open>evs\<close>.\<close>

definition caught :: "effect list \<Rightarrow> exn \<Rightarrow> result" where
  "caught evs e =
     \<lparr>effects = evs @ [Console_error [LExn e]],
      outcome = Responded 500 (JObj [(''error'', JStr ''Proxy error''), (''details'', JStr (message e))])\<rparr>"

text \<open>
  The \<^verbatim>\<open>try\<close> block, the same in both variants. \<open>upstream\<close> is the completion endpoint as
  \<^verbatim>\<open>fetch\<close> presents it: it throws or resolves to a response. \<open>evs\<close> are the effects so far.
\<close>

definition try_block :: "(fetch_request \<Rightarrow> exn + response) \<Rightarrow> effect list \<Rightarrow> fetch_request \<Rightarrow> result" where
  "try_block upstream evs req =
     (let evs = evs @ [Fetch req]
      in case upstream req of
           Inl e \<Rightarrow> caught evs e
         | Inr response \<Rightarrow>
             if \<not> ok response then
               (case resp_text response of
                  Inl e \<Rightarrow> caught evs e
                | Inr err \<Rightarrow>
                    \<lparr>effects = evs @ [Console_error [LStr ''OpenAI error:'', LStr err]],
                     outcome = Responded 502
                       (JObj [(''error'', JStr ''OpenAI request failed''), (''details'', JStr err)])\<rparr>)
             else
               (case resp_json response of
                  Inl e \<Rightarrow> caught evs e
                | Inr data \<Rightarrow>
                    (let reply =
                       nullish (opt_get (opt_get (opt_index0 (opt_get data ''choices'')) ''message'') ''content'')
                         (JStr '''')
                     in \<lparr>effects = evs, outcome = Responded 200 (JObj [(''reply'', reply)])\<rparr>)))"

text \<open>
  \<^verbatim>\<open>const { prompt, history = [], state = {} } = req.body\<close>: destructuring \<^verbatim>\<open>null\<close> or
  \<^verbatim>\<open>undefined\<close> throws.
\<close>

definition destructure :: "jsval \<Rightarrow> exn + jsval \<times> jsval \<times> jsval" where
  "destructure body =
     (if body = JUndefined
      then Inl (TypeError ''Cannot destructure property 'prompt' of 'req.body' as it is undefined.'')
      else if body = JNull
      then Inl (TypeError ''Cannot destructure property 'prompt' of 'req.body' as it is null.'')
      else Inr (own_prop body ''prompt'',
                default_to (own_prop body ''history'') (JArr []),
                default_to (own_prop body ''state'') (JObj [])))"

definition missing_prompt :: result where
  "missing_prompt =
     \<lparr>effects = [], outcome = Responded 400 (JObj [(''error'', JStr ''Missing prompt'')])\<rparr>"

definition handler1 ::
  "config \<Rightarrow> (rat \<Rightarrow> string) \<Rightarrow> (fetch_request \<Rightarrow> exn + response) \<Rightarrow> jsval \<Rightarrow> result" where
  "handler1 cfg ns upstream body =
     (case destructure body of
        Inl e \<Rightarrow> \<lparr>effects = [], outcome = Escaped e\<rparr>
      | Inr (prompt, history, state) \<Rightarrow>
          if \<not> truthy prompt then missing_prompt
          else
            (case buildMessages1 ns history state of
               Inl e \<Rightarrow> \<lparr>effects = [], outcome = Escaped e\<rparr>
             | Inr msgs \<Rightarrow>
                 (let messages = msgs @ [\<lparr>role = User, content = prompt\<rparr>]
                  in try_block upstream [Console_info [LMessages messages]]
                       (request1 cfg messages))))"

definition handler2 ::
  "config \<Rightarrow> (rat \<Rightarrow> string) \<Rightarrow> (fetch_request \<Rightarrow> exn + response) \<Rightarrow> jsval \<Rightarrow> result" where
  "handler2 cfg ns upstream body =
     (case destructure body of
        Inl e \<Rightarrow> \<lparr>effects = [], outcome = Escaped e\<rparr>
      | Inr (prompt, history, state) \<Rightarrow>
          if \<not> truthy prompt then missing_prompt
          else
            (case buildMessages2 ns history state of
               Inl e \<Rightarrow> \<lparr>effects = [], outcome = Escaped e\<rparr>
             | Inr msgs \<Rightarrow>
                 (let messages = msgs @ [\<lparr>role = User, content = prompt\<rparr>]
                  in try_block upstream
                       [Console_info [LStr ''=== OpenAI request ===''],
                        Console_info [LMessages messages],
                        Console_info [LStr ''======================'']]
                       (request2 cfg messages))))"

section \<open>Observations and the spec's descriptions\<close>

text \<open>The upstream calls a run performed, oldest first.\<close>

fun fetches :: "effect list \<Rightarrow> fetch_request list" where
  "fetches [] = []"
| "fetches (Fetch req # es) = req # fetches es"
| "fetches (e # es) = fetches es"

definition upstream_calls :: "result \<Rightarrow> fetch_request list" where
  "upstream_calls r = fetches (effects r)"

text \<open>
  A field of the state as the data model has it, \<^verbatim>\<open>html?: string\<close>: absent, or a string.
\<close>

fun field :: "string option \<Rightarrow> jsval" where
  "field None = JUndefined"
| "field (Some s) = JStr s"

text \<open>
  The spec's words for a substitution: the placeholder when the field is absent or
  empty, the field verbatim when it is a non-empty string.
\<close>

fun spec_slot :: "string \<Rightarrow> string option \<Rightarrow> string" where
  "spec_slot placeholder None = placeholder"
| "spec_slot placeholder (Some s) = (if s = [] then placeholder else s)"

text \<open>
  The spec's words for the history replay: for each entry, in order, a user message with
  that entry, then an assistant message with the fixed placeholder.
\<close>

definition spec_replay :: "jsval list \<Rightarrow> message list" where
  "spec_replay elems =
     concat (map (\<lambda>u. [\<lparr>role = User, content = u\<rparr>,
                         \<lparr>role = Assistant, content = JStr ''Request completed''\<rparr>]) elems)"

text \<open>
  The state has the data model's shape: it is not \<^verbatim>\<open>null\<close>, and each of \<^verbatim>\<open>html\<close>, \<^verbatim>\<open>css\<close>,
  \<^verbatim>\<open>js\<close> is absent or a string. (A missing state is \<^verbatim>\<open>undefined\<close> and has no field.)
\<close>

definition state_fields ::
  "jsval \<Rightarrow> string option \<Rightarrow> string option \<Rightarrow> string option \<Rightarrow> bool" where
  "state_fields st h c j =
     (st \<noteq> JNull \<and> own_prop st ''html'' = field h \<and> own_prop st ''css'' = field c \<and>
      own_prop st ''js'' = field j)"

text \<open>Mocked upstreams and a number printer, for the concrete runs below.\<close>

definition responding :: "response \<Rightarrow> fetch_request \<Rightarrow> exn + response" where
  "responding r req = Inr r"

definition throwing :: "exn \<Rightarrow> fetch_request \<Rightarrow> exn + response" where
  "throwing e req = Inl e"

definition no_numbers :: "rat \<Rightarrow> string" where
  "no_numbers n = ''0''"

definition no_env :: config where
  "no_env = \<lparr>env_OPENAI_API_KEY = None, env_OPENAI_ENDPOINT = None\<rparr>"

text \<open>Whether \<open>needle\<close> occurs in \<open>hay\<close> as a contiguous substring.\<close>

fun starts_with :: "string \<Rightarrow> string \<Rightarrow> bool" where
  "starts_with [] hay = True"
| "starts_with (n # ns) [] = False"
| "starts_with (n # ns) (h # hs) = (n = h \<and> starts_with ns hs)"

fun occurs_in :: "string \<Rightarrow> string \<Rightarrow> bool" where
  "occurs_in needle [] = (needle = [])"
| "occurs_in needle (h # hs) = (starts_with needle (h # hs) \<or> occurs_in needle hs)"

text \<open>The run on the request \<^verbatim>\<open>{"prompt": "hi"}\<close>, used for the concrete runs below.\<close>

definition hi :: jsval where
  "hi = JObj [(''prompt'', JStr ''hi'')]"

definition completion_200 :: response where
  "completion_200 =
     \<lparr>status = 200, resp_text = Inr ''(body)'',
      resp_json = Inr (JObj [(''choices'',
        JArr [JObj [(''message'', JObj [(''role'', JStr ''assistant''), (''content'', JStr ''X'')])]])])\<rparr>"




text \<open>The request \<^verbatim>\<open>{"prompt": "hi", "history": 5}\<close>.\<close>

definition number_history :: jsval where
  "number_history = JObj [(''prompt'', JStr ''hi''), (''history'', JNum 5)]"

text \<open>The request \<^verbatim>\<open>{"prompt": "hi", "state": null}\<close>.\<close>

definition null_state :: jsval where
  "null_state = JObj [(''prompt'', JStr ''hi''), (''state'', JNull)]"

text \<open>
  The request \<^verbatim>\<open>{"prompt": "make it red", "history": ["add a button"],
  "state": {"html": "<button>Go</button>"}}\<close>.
\<close>

definition edit_request :: jsval where
  "edit_request =
     JObj [(''prompt'', JStr ''make it red''),
           (''history'', JArr [JStr ''add a button'']),
           (''state'', JObj [(''html'', JStr ''<button>Go</button>'')])]"

text \<open>
  The request \<^verbatim>\<open>{"prompt": "make it red", "history": ["add a button"],
  "state": {"html": true}}\<close>, whose state is outside the data model.
\<close>

definition loose_request :: jsval where
  "loose_request =
     JObj [(''prompt'', JStr ''make it red''),
           (''history'', JArr [JStr ''add a button'']),
           (''state'', JObj [(''html'', JBool True)])]"

definition no_choices_200 :: response where
  "no_choices_200 =
     \<lparr>status = 200, resp_text = Inr ''(body)'',
      resp_json = Inr (JObj [(''choices'', JArr [])])\<rparr>"
section \<open>The loop and the templates\<close>

lemma replay_spec_replay: "replay elems msgs = msgs @ spec_replay elems"
  by (induction elems arbitrary: msgs) (simp_all add: spec_replay_def)

lemma length_spec_replay: "length (spec_replay elems) = 2 * length elems"
  by (induction elems) (simp_all add: spec_replay_def)

lemma nth_spec_replay:
  "i < length elems \<Longrightarrow>
     spec_replay elems ! (2 * i) = \<lparr>role = User, content = elems ! i\<rparr> \<and>
     spec_replay elems ! (2 * i + 1) = \<lparr>role = Assistant, content = JStr ''Request completed''\<rparr>"
proof (induction elems arbitrary: i)
  case Nil
  then show ?case by simp
next
  case (Cons u us)
  show ?case
  proof (cases i)
    case 0
    then show ?thesis by (simp add: spec_replay_def)
  next
    case (Suc j)
    with Cons.prems have "j < length us" by simp
    from Cons.IH[OF this] Suc show ?thesis by (simp add: spec_replay_def)
  qed
qed

lemma join_lines_append:
  "xs \<noteq> [] \<Longrightarrow> ys \<noteq> [] \<Longrightarrow> join_lines (xs @ ys) = join_lines xs @ CHR 0x0A # join_lines ys"
proof (induction xs rule: join_lines.induct)
  case 1
  then show ?case by simp
next
  case (2 l)
  then show ?case by (cases ys) simp_all
next
  case (3 l m ls)
  then show ?case by simp
qed

lemma join_lines_blank_first: "ls \<noteq> [] \<Longrightarrow> join_lines ([] # ls) = CHR 0x0A # join_lines ls"
  by (cases ls) simp_all

lemma join_lines_blank_last: "ls \<noteq> [] \<Longrightarrow> join_lines (ls @ [[]]) = join_lines ls @ [CHR 0x0A]"
  using join_lines_append[of ls "[[]]"] by simp

lemma hd_join_lines: "l \<noteq> [] \<Longrightarrow> hd (join_lines (l # ls)) = hd l"
  by (cases ls) simp_all

lemma join_lines_Nil_iff: "join_lines ls = [] \<longleftrightarrow> ls = [] \<or> ls = [[]]"
  by (induction ls rule: join_lines.induct) simp_all

lemma last_join_lines: "ls \<noteq> [] \<Longrightarrow> last ls \<noteq> [] \<Longrightarrow> last (join_lines ls) = last (last ls)"
  by (induction ls rule: join_lines.induct) (auto simp: join_lines_Nil_iff split: if_splits)

text \<open>
  Trimming a template that starts and ends with a blank line removes exactly these two
  line feeds, when the first line starts and the last line ends with a visible character.
\<close>

lemma trim_blank_lines:
  assumes "ls = f # fs" "f \<noteq> []" "\<not> is_space (hd f)"
    and "ls = bs @ [b]" "b \<noteq> []" "\<not> is_space (last b)"
  shows "trim (join_lines ([[]] @ ls @ [[]])) = join_lines ls"
proof -
  have ne: "ls \<noteq> []" using assms(1) by simp
  have jne: "join_lines ls \<noteq> []" using assms(1,2) by (simp add: join_lines_Nil_iff)
  have h: "\<not> is_space (hd (join_lines ls))"
    unfolding assms(1) hd_join_lines[OF assms(2)] by (rule assms(3))
  have "last ls = b" using assms(4) by simp
  with last_join_lines[OF ne] assms(5,6) have t: "\<not> is_space (last (join_lines ls))" by simp
  have "join_lines ([[]] @ ls @ [[]]) = CHR 0x0A # join_lines (ls @ [[]])"
    using join_lines_blank_first[of "ls @ [[]]"] by simp
  also have "\<dots> = CHR 0x0A # join_lines ls @ [CHR 0x0A]"
    by (simp add: join_lines_blank_last[OF ne])
  finally have e: "join_lines ([[]] @ ls @ [[]]) = CHR 0x0A # join_lines ls @ [] @ [CHR 0x0A]"
    by simp
  have "trim (CHR 0x0A # join_lines ls @ [CHR 0x0A]) = join_lines ls"
  proof (cases "join_lines ls" rule: rev_cases)
    case Nil
    with jne show ?thesis by simp
  next
    case (snoc ys y)
    obtain x xs where xs: "join_lines ls = x # xs" using jne by (cases "join_lines ls") auto
    have nl: "is_space (CHR 0x0A)" by (simp add: is_space_def)
    have x: "\<not> is_space x" using h xs by simp
    have y: "\<not> is_space y" using t snoc by simp
    have 1: "dropWhile is_space (CHR 0x0A # join_lines ls @ [CHR 0x0A]) = join_lines ls @ [CHR 0x0A]"
      using nl x xs by simp
    have 2: "rev (join_lines ls @ [CHR 0x0A]) = CHR 0x0A # y # rev ys"
      using snoc by simp
    have 3: "dropWhile is_space (CHR 0x0A # y # rev ys) = y # rev ys"
      using nl y by simp
    have 4: "rev (y # rev ys) = join_lines ls"
      using snoc by simp
    show ?thesis unfolding trim_def 1 2 3 4 ..
  qed
  then show ?thesis using e by simp
qed

lemma trim_system1:
  "trim (system1 html css) = join_lines (instructions1 @ [html] @ css_heading1 @ [css] @ closing1)"
proof -
  let ?ls = "instructions1 @ [html] @ css_heading1 @ [css] @ closing1"
  obtain f fs where i: "instructions1 = f # fs" and f: "f \<noteq> []" "hd f = CHR ''Y''"
    unfolding instructions1_def by simp
  obtain bs b where c: "closing1 = bs @ [b]" and b: "b \<noteq> []" "last b = CHR ''.''"
    unfolding closing1_def by simp
  have 1: "?ls = f # (fs @ [html] @ css_heading1 @ [css] @ closing1)"
    unfolding i by simp
  have 2: "?ls = (instructions1 @ [html] @ css_heading1 @ [css] @ bs) @ [b]"
    unfolding c by simp
  have 3: "\<not> is_space (hd f)" "\<not> is_space (last b)"
    unfolding f b by (simp_all add: is_space_def)
  have "system1 html css = join_lines ([[]] @ ?ls @ [[]])"
    by (simp add: system1_def)
  then show ?thesis
    using trim_blank_lines[OF 1 f(1) 3(1) 2 b(1) 3(2)] by simp
qed

lemma system2_eq: "system2 = join_lines instructions2"
proof -
  obtain f fs where i: "instructions2 = f # fs" and f: "f \<noteq> []" "hd f = CHR ''Y''"
    unfolding instructions2_def by simp
  obtain bs b where c: "instructions2 = bs @ [b]" and b: "b \<noteq> []" "last b = CHR ''.''"
    unfolding instructions2_def by simp
  have 3: "\<not> is_space (hd f)" "\<not> is_space (last b)"
    unfolding f b by (simp_all add: is_space_def)
  show ?thesis
    unfolding system2_def using trim_blank_lines[OF i f(1) 3(1) c b(1) 3(2)] by simp
qed

section \<open>Building the messages from a well-typed state\<close>

lemma default_to_idem: "default_to (default_to v d) d = default_to v d"
  by (simp add: default_to_def)

lemma substitution_field:
  assumes "st \<noteq> JNull" and "own_prop st k = field v"
  shows "substitution ns (default_to st (JObj [])) k placeholder = Inr (spec_slot placeholder v)"
proof (cases "st = JUndefined")
  case True
  with assms(2) have "v = None" by (cases v) simp_all
  with True show ?thesis
    by (simp add: substitution_def default_to_def get_def or_else_def)
next
  case False
  with assms show ?thesis
    by (cases v) (simp_all add: substitution_def default_to_def get_def or_else_def)
qed

lemma buildMessages1_fields:
  assumes "state_fields st h c j"
  shows "buildMessages1 ns hist st =
    (case iterate (default_to hist (JArr [])) of
       Inl e \<Rightarrow> Inl e
     | Inr elems \<Rightarrow>
         Inr (\<lparr>role = System,
               content = JStr (join_lines (instructions1 @ [spec_slot ''<!-- none -->'' h]
                 @ css_heading1 @ [spec_slot ''/* none */'' c] @ closing1))\<rparr>
              # spec_replay elems))"
proof -
  from assms have n: "st \<noteq> JNull"
    and f: "own_prop st ''html'' = field h" "own_prop st ''css'' = field c"
    by (simp_all add: state_fields_def)
  show ?thesis
    unfolding buildMessages1_def Let_def
      substitution_field[OF n f(1)] substitution_field[OF n f(2)]
    by (simp add: trim_system1 replay_spec_replay split: sum.split)
qed

lemma buildMessages2_fields:
  assumes "state_fields st h c j"
  shows "buildMessages2 ns hist st =
    (case iterate (default_to hist (JArr [])) of
       Inl e \<Rightarrow> Inl e
     | Inr elems \<Rightarrow>
         Inr (\<lparr>role = System, content = JStr (join_lines instructions2)\<rparr>
              # spec_replay elems
              @ [\<lparr>role = System,
                  content = JStr (state_text2 (spec_slot ''<!-- none -->'' h)
                    (spec_slot ''/* none */'' c) (spec_slot ''// none'' j))\<rparr>]))"
proof -
  from assms have n: "st \<noteq> JNull"
    and f: "own_prop st ''html'' = field h" "own_prop st ''css'' = field c"
      "own_prop st ''js'' = field j"
    by (simp_all add: state_fields_def)
  show ?thesis
    unfolding buildMessages2_def Let_def
      substitution_field[OF n f(1)] substitution_field[OF n f(2)] substitution_field[OF n f(3)]
    by (simp add: system2_eq replay_spec_replay split: sum.split)
qed

text \<open>Whatever the state, a list that \<^verbatim>\<open>buildMessages\<close> returns has the replay in its place.\<close>

lemma buildMessages1_returns:
  assumes "buildMessages1 ns hist st = Inr msgs"
  shows "\<exists>sys elems. iterate (default_to hist (JArr [])) = Inr elems \<and> role sys = System \<and>
    msgs = [sys] @ spec_replay elems"
  using assms
  by (auto simp: buildMessages1_def Let_def replay_spec_replay split: sum.splits)

lemma buildMessages2_returns:
  assumes "buildMessages2 ns hist st = Inr msgs"
  shows "\<exists>sys elems st_msg. iterate (default_to hist (JArr [])) = Inr elems \<and> role sys = System \<and>
    role st_msg = System \<and> msgs = [sys] @ spec_replay elems @ [st_msg]"
  using assms
  by (auto simp: buildMessages2_def Let_def replay_spec_replay split: sum.splits)

text \<open>When \<^verbatim>\<open>buildMessages\<close> returns, and what it returns then, whatever the state.\<close>

lemma buildMessages1_Inr_iff:
  "buildMessages1 ns hist st = Inr msgs \<longleftrightarrow>
     (\<exists>html css elems.
        substitution ns (default_to st (JObj [])) ''html'' ''<!-- none -->'' = Inr html \<and>
        substitution ns (default_to st (JObj [])) ''css'' ''/* none */'' = Inr css \<and>
        iterate (default_to hist (JArr [])) = Inr elems \<and>
        msgs = [\<lparr>role = System, content = JStr (trim (system1 html css))\<rparr>] @ spec_replay elems)"
  by (auto simp: buildMessages1_def Let_def replay_spec_replay split: sum.splits)

lemma buildMessages2_Inr_iff:
  "buildMessages2 ns hist st = Inr msgs \<longleftrightarrow>
     (\<exists>html css js elems.
        substitution ns (default_to st (JObj [])) ''html'' ''<!-- none -->'' = Inr html \<and>
        substitution ns (default_to st (JObj [])) ''css'' ''/* none */'' = Inr css \<and>
        substitution ns (default_to st (JObj [])) ''js'' ''// none'' = Inr js \<and>
        iterate (default_to hist (JArr [])) = Inr elems \<and>
        msgs = [\<lparr>role = System, content = JStr system2\<rparr>] @ spec_replay elems
          @ [\<lparr>role = System, content = JStr (state_text2 html css js)\<rparr>])"
  by (auto simp: buildMessages2_def Let_def replay_spec_replay split: sum.splits)

text \<open>A substitution that did not throw, read field by field.\<close>

lemma substitution_not_null:
  "substitution ns (default_to st (JObj [])) k placeholder = Inr s \<Longrightarrow> st \<noteq> JNull"
  by (auto simp: substitution_def default_to_def get_def)

lemma substitution_slot:
  assumes "substitution ns (default_to st (JObj [])) k placeholder = Inr s"
    and "own_prop st k = field v"
  shows "s = spec_slot placeholder v"
  using substitution_field[OF substitution_not_null[OF assms(1)] assms(2), of ns placeholder] assms(1)
  by simp

lemma substitution_same_field:
  assumes "st \<noteq> JNull" "st' \<noteq> JNull" and "own_prop st k = own_prop st' k"
  shows "substitution ns (default_to st (JObj [])) k placeholder =
    substitution ns (default_to st' (JObj [])) k placeholder"
proof -
  have "get (default_to t (JObj [])) k = Inr (own_prop t k)" if "t \<noteq> JNull" for t
    using that by (cases "t = JUndefined") (simp_all add: default_to_def get_def)
  with assms show ?thesis by (simp add: substitution_def)
qed

text \<open>Variant 1 reads \<^verbatim>\<open>html\<close> and \<^verbatim>\<open>css\<close> of the state, and nothing else of it.\<close>

lemma buildMessages1_reads_html_css:
  assumes "st \<noteq> JNull" "st' \<noteq> JNull"
    and "own_prop st ''html'' = own_prop st' ''html''" "own_prop st ''css'' = own_prop st' ''css''"
  shows "buildMessages1 ns hist st = buildMessages1 ns hist st'"
  unfolding buildMessages1_def Let_def
    substitution_same_field[OF assms(1,2,3)] substitution_same_field[OF assms(1,2,4)] ..

lemma buildMessages1_html_css:
  assumes "st \<noteq> JNull" and "own_prop st ''html'' = field h" "own_prop st ''css'' = field c"
    and "iterate (default_to hist (JArr [])) = Inr elems"
  shows "buildMessages1 ns hist st =
    Inr (\<lparr>role = System,
          content = JStr (join_lines (instructions1 @ [spec_slot ''<!-- none -->'' h]
            @ css_heading1 @ [spec_slot ''/* none */'' c] @ closing1))\<rparr>
         # spec_replay elems)"
  unfolding buildMessages1_Inr_iff
    substitution_field[OF assms(1,2)] substitution_field[OF assms(1,3)] assms(4)
  by (simp add: trim_system1)

section \<open>Runs of the handler\<close>

lemma fetches_append: "fetches (xs @ ys) = fetches xs @ fetches ys"
  by (induction xs rule: fetches.induct) simp_all

lemma effects_caught: "effects (caught evs e) = evs @ [Console_error [LExn e]]"
  by (simp add: caught_def)

lemma outcome_caught:
  "outcome (caught evs e) =
     Responded 500 (JObj [(''error'', JStr ''Proxy error''), (''details'', JStr (message e))])"
  by (simp add: caught_def)

lemma fetches_try_block: "fetches (effects (try_block upstream evs req)) = fetches evs @ [req]"
  by (simp add: try_block_def Let_def effects_caught fetches_append split: sum.split)





lemma try_block_reply:
  "upstream req = Inr r \<Longrightarrow> ok r \<Longrightarrow> resp_json r = Inr data \<Longrightarrow>
     outcome (try_block upstream evs req) =
       Responded 200 (JObj [(''reply'',
         nullish (opt_get (opt_get (opt_index0 (opt_get data ''choices'')) ''message'') ''content'')
           (JStr ''''))])"
  by (simp add: try_block_def)

lemma try_block_never_400: "outcome (try_block upstream evs req) \<noteq> Responded 400 b"
  by (simp add: try_block_def Let_def outcome_caught split: sum.split)

text \<open>The three ways a run of either handler can go.\<close>

lemma handler1_run:
  assumes "body \<noteq> JUndefined" "body \<noteq> JNull"
  shows "handler1 cfg ns upstream body =
    (if \<not> truthy (own_prop body ''prompt'') then missing_prompt
     else case buildMessages1 ns (default_to (own_prop body ''history'') (JArr []))
                 (default_to (own_prop body ''state'') (JObj [])) of
            Inl e \<Rightarrow> \<lparr>effects = [], outcome = Escaped e\<rparr>
          | Inr msgs \<Rightarrow>
              try_block upstream
                [Console_info [LMessages (msgs @ [\<lparr>role = User, content = own_prop body ''prompt''\<rparr>])]]
                (request1 cfg (msgs @ [\<lparr>role = User, content = own_prop body ''prompt''\<rparr>])))"
  using assms by (simp add: handler1_def destructure_def Let_def split: sum.split)

lemma handler2_run:
  assumes "body \<noteq> JUndefined" "body \<noteq> JNull"
  shows "handler2 cfg ns upstream body =
    (if \<not> truthy (own_prop body ''prompt'') then missing_prompt
     else case buildMessages2 ns (default_to (own_prop body ''history'') (JArr []))
                 (default_to (own_prop body ''state'') (JObj [])) of
            Inl e \<Rightarrow> \<lparr>effects = [], outcome = Escaped e\<rparr>
          | Inr msgs \<Rightarrow>
              try_block upstream
                [Console_info [LStr ''=== OpenAI request ===''],
                 Console_info [LMessages (msgs @ [\<lparr>role = User, content = own_prop body ''prompt''\<rparr>])],
                 Console_info [LStr ''======================'']]
                (request2 cfg (msgs @ [\<lparr>role = User, content = own_prop body ''prompt''\<rparr>])))"
  using assms by (simp add: handler2_def destructure_def Let_def split: sum.split)

lemma handler1_truthy:
  assumes "body \<noteq> JUndefined" "body \<noteq> JNull" and "truthy (own_prop body ''prompt'')"
  shows "(\<exists>e. handler1 cfg ns upstream body = \<lparr>effects = [], outcome = Escaped e\<rparr>) \<or>
    (\<exists>msgs evs. fetches evs = [] \<and>
       buildMessages1 ns (default_to (own_prop body ''history'') (JArr []))
         (default_to (own_prop body ''state'') (JObj [])) = Inr msgs \<and>
       handler1 cfg ns upstream body =
         try_block upstream evs
           (request1 cfg (msgs @ [\<lparr>role = User, content = own_prop body ''prompt''\<rparr>])))"
proof (cases "buildMessages1 ns (default_to (own_prop body ''history'') (JArr []))
               (default_to (own_prop body ''state'') (JObj []))")
  case (Inl e)
  with assms(3) show ?thesis by (simp add: handler1_run[OF assms(1,2)])
next
  case (Inr msgs)
  let ?p = "\<lparr>role = User, content = own_prop body ''prompt''\<rparr>"
  let ?evs = "[Console_info [LMessages (msgs @ [?p])]]"
  have "handler1 cfg ns upstream body = try_block upstream ?evs (request1 cfg (msgs @ [?p]))"
    using assms(3) Inr by (simp add: handler1_run[OF assms(1,2)])
  moreover have "fetches ?evs = []" by simp
  ultimately show ?thesis using Inr by blast
qed

lemma handler2_truthy:
  assumes "body \<noteq> JUndefined" "body \<noteq> JNull" and "truthy (own_prop body ''prompt'')"
  shows "(\<exists>e. handler2 cfg ns upstream body = \<lparr>effects = [], outcome = Escaped e\<rparr>) \<or>
    (\<exists>msgs evs. fetches evs = [] \<and>
       buildMessages2 ns (default_to (own_prop body ''history'') (JArr []))
         (default_to (own_prop body ''state'') (JObj [])) = Inr msgs \<and>
       handler2 cfg ns upstream body =
         try_block upstream evs
           (request2 cfg (msgs @ [\<lparr>role = User, content = own_prop body ''prompt''\<rparr>])))"
proof (cases "buildMessages2 ns (default_to (own_prop body ''history'') (JArr []))
               (default_to (own_prop body ''state'') (JObj []))")
  case (Inl e)
  with assms(3) show ?thesis by (simp add: handler2_run[OF assms(1,2)])
next
  case (Inr msgs)
  let ?p = "\<lparr>role = User, content = own_prop body ''prompt''\<rparr>"
  let ?evs = "[Console_info [LStr ''=== OpenAI request ===''],
               Console_info [LMessages (msgs @ [?p])],
               Console_info [LStr ''======================'']]"
  have "handler2 cfg ns upstream body = try_block upstream ?evs (request2 cfg (msgs @ [?p]))"
    using assms(3) Inr by (simp add: handler2_run[OF assms(1,2)])
  moreover have "fetches ?evs = []" by simp
  ultimately show ?thesis using Inr by blast
qed

lemma messages_request [simp]:
  "messages (payload (request1 cfg msgs)) = msgs" "messages (payload (request2 cfg msgs)) = msgs"
  by (simp_all add: request1_def request2_def)

lemma handler_truthy:
  assumes "handler = handler1 \<or> handler = handler2"
    and "body \<noteq> JUndefined" "body \<noteq> JNull" and "truthy (own_prop body ''prompt'')"
  shows "(\<exists>e. handler cfg ns upstream body = \<lparr>effects = [], outcome = Escaped e\<rparr>) \<or>
    (\<exists>msgs evs req. fetches evs = [] \<and>
       handler cfg ns upstream body = try_block upstream evs req \<and>
       messages (payload req) = msgs @ [\<lparr>role = User, content = own_prop body ''prompt''\<rparr>])"
  using assms(1)
proof
  assume h: "handler = handler1"
  from handler1_truthy[OF assms(2-4), of cfg ns upstream] show ?thesis
    unfolding h by (metis messages_request(1))
next
  assume h: "handler = handler2"
  from handler2_truthy[OF assms(2-4), of cfg ns upstream] show ?thesis
    unfolding h by (metis messages_request(2))
qed

lemma handler_falsy:
  assumes "handler = handler1 \<or> handler = handler2"
    and "body \<noteq> JUndefined" "body \<noteq> JNull" and "\<not> truthy (own_prop body ''prompt'')"
  shows "handler cfg ns upstream body = missing_prompt"
  using assms by (auto simp: handler1_run handler2_run)

lemma handler_ways:
  assumes "handler = handler1 \<or> handler = handler2" and "body \<noteq> JUndefined" "body \<noteq> JNull"
  shows "handler cfg ns upstream body = missing_prompt \<or>
    (\<exists>e. handler cfg ns upstream body = \<lparr>effects = [], outcome = Escaped e\<rparr>) \<or>
    (\<exists>evs req. fetches evs = [] \<and> handler cfg ns upstream body = try_block upstream evs req)"
  using handler_falsy[OF assms, of cfg ns upstream] handler_truthy[OF assms, of cfg ns upstream]
  by blast

lemma handler_null_body:
  assumes "handler = handler1 \<or> handler = handler2" and "body = JUndefined \<or> body = JNull"
  shows "effects (handler cfg ns upstream body) = []"
  using assms by (auto simp: handler1_def handler2_def destructure_def)

text \<open>A run that called the upstream is a run of the \<^verbatim>\<open>try\<close> block on that request.\<close>

lemma mem_fetches: "Fetch req \<in> set evs \<Longrightarrow> req \<in> set (fetches evs)"
  by (induction evs rule: fetches.induct) auto

lemma fetches_mem: "req \<in> set (fetches evs) \<Longrightarrow> Fetch req \<in> set evs"
  by (induction evs rule: fetches.induct) auto

lemma truthy_iff: "truthy v \<longleftrightarrow> v \<notin> {JUndefined, JStr [], JNull, JNum 0, JBool False}"
  by (cases v) auto

lemma handler_fetched:
  assumes "handler = handler1 \<or> handler = handler2"
    and "Fetch req \<in> set (effects (handler cfg ns upstream body))"
  shows "\<exists>evs. handler cfg ns upstream body = try_block upstream evs req"
proof -
  let ?r = "handler cfg ns upstream body"
  have b: "body \<noteq> JUndefined" "body \<noteq> JNull"
    using handler_null_body[OF assms(1), of body cfg ns upstream] assms(2) by auto
  from handler_ways[OF assms(1) b, of cfg ns upstream] assms(2)
  obtain evs req' where e: "fetches evs = []" and r: "?r = try_block upstream evs req'"
    by (auto simp: missing_prompt_def)
  from mem_fetches[OF assms(2)] have "req = req'"
    unfolding r fetches_try_block e by simp
  with r show ?thesis by blast
qed


lemma state_fields_default:
  "state_fields st h c j \<Longrightarrow> state_fields (default_to st (JObj [])) h c j"
  by (cases "st = JUndefined") (auto simp: state_fields_def default_to_def)

text \<open>The run on a request of the data model's shape, up to what is in the history.\<close>

lemma handler1_typed:
  assumes "body \<noteq> JUndefined" "body \<noteq> JNull" and "truthy (own_prop body ''prompt'')"
    and "iterate (default_to (own_prop body ''history'') (JArr [])) = Inr elems"
    and "state_fields (own_prop body ''state'') h c j"
    and "msgs = \<lparr>role = System,
               content = JStr (join_lines (instructions1 @ [spec_slot ''<!-- none -->'' h]
                 @ css_heading1 @ [spec_slot ''/* none */'' c] @ closing1))\<rparr>
              # spec_replay elems"
  shows "buildMessages1 ns (default_to (own_prop body ''history'') (JArr []))
           (default_to (own_prop body ''state'') (JObj [])) = Inr msgs"
    and "handler1 cfg ns upstream body =
      try_block upstream
        [Console_info [LMessages (msgs @ [\<lparr>role = User, content = own_prop body ''prompt''\<rparr>])]]
        (request1 cfg (msgs @ [\<lparr>role = User, content = own_prop body ''prompt''\<rparr>]))"
proof -
  show b: "buildMessages1 ns (default_to (own_prop body ''history'') (JArr []))
           (default_to (own_prop body ''state'') (JObj [])) = Inr msgs"
    unfolding buildMessages1_fields[OF state_fields_default[OF assms(5)]] default_to_idem
      assms(4) assms(6) by simp
  show "handler1 cfg ns upstream body =
      try_block upstream
        [Console_info [LMessages (msgs @ [\<lparr>role = User, content = own_prop body ''prompt''\<rparr>])]]
        (request1 cfg (msgs @ [\<lparr>role = User, content = own_prop body ''prompt''\<rparr>]))"
    unfolding handler1_run[OF assms(1,2)] b using assms(3) by simp
qed

lemma handler2_typed:
  assumes "body \<noteq> JUndefined" "body \<noteq> JNull" and "truthy (own_prop body ''prompt'')"
    and "iterate (default_to (own_prop body ''history'') (JArr [])) = Inr elems"
    and "state_fields (own_prop body ''state'') h c j"
    and "msgs = \<lparr>role = System, content = JStr (join_lines instructions2)\<rparr>
              # spec_replay elems
              @ [\<lparr>role = System,
                  content = JStr (state_text2 (spec_slot ''<!-- none -->'' h)
                    (spec_slot ''/* none */'' c) (spec_slot ''// none'' j))\<rparr>]"
  shows "buildMessages2 ns (default_to (own_prop body ''history'') (JArr []))
           (default_to (own_prop body ''state'') (JObj [])) = Inr msgs"
    and "handler2 cfg ns upstream body =
      try_block upstream
        [Console_info [LStr ''=== OpenAI request ===''],
         Console_info [LMessages (msgs @ [\<lparr>role = User, content = own_prop body ''prompt''\<rparr>])],
         Console_info [LStr ''======================'']]
        (request2 cfg (msgs @ [\<lparr>role = User, content = own_prop body ''prompt''\<rparr>]))"
proof -
  show b: "buildMessages2 ns (default_to (own_prop body ''history'') (JArr []))
           (default_to (own_prop body ''state'') (JObj [])) = Inr msgs"
    unfolding buildMessages2_fields[OF state_fields_default[OF assms(5)]] default_to_idem
      assms(4) assms(6) by simp
  show "handler2 cfg ns upstream body =
      try_block upstream
        [Console_info [LStr ''=== OpenAI request ===''],
         Console_info [LMessages (msgs @ [\<lparr>role = User, content = own_prop body ''prompt''\<rparr>])],
         Console_info [LStr ''======================'']]
        (request2 cfg (msgs @ [\<lparr>role = User, content = own_prop body ''prompt''\<rparr>]))"
    unfolding handler2_run[OF assms(1,2)] b using assms(3) by simp
qed

lemma hi_runs:
  "\<exists>evs req. handler1 cfg ns upstream hi = try_block upstream evs req"
  "\<exists>evs req. handler2 cfg ns upstream hi = try_block upstream evs req"
proof -
  have a: "hi \<noteq> JUndefined" "hi \<noteq> JNull" "truthy (own_prop hi ''prompt'')"
    "iterate (default_to (own_prop hi ''history'') (JArr [])) = Inr []"
    "state_fields (own_prop hi ''state'') None None None"
    by (simp_all add: hi_def default_to_def state_fields_def)
  from handler1_typed(2)[OF a refl] show "\<exists>evs req. handler1 cfg ns upstream hi = try_block upstream evs req"
    by blast
  from handler2_typed(2)[OF a refl] show "\<exists>evs req. handler2 cfg ns upstream hi = try_block upstream evs req"
    by blast
qed

text \<open>
  The message lists a run sends depend on the request body alone, not on the
  configuration and not on what the upstream answers.
\<close>

lemma sent_messages_independent:
  assumes "handler = handler1 \<or> handler = handler2"
  shows "map (\<lambda>req. messages (payload req)) (upstream_calls (handler cfg ns upstream body)) =
    map (\<lambda>req. messages (payload req)) (upstream_calls (handler cfg' ns upstream' body))"
proof (cases "body = JUndefined \<or> body = JNull")
  case True
  from handler_null_body[OF assms True] show ?thesis
    by (simp add: upstream_calls_def)
next
  case False
  hence b: "body \<noteq> JUndefined" "body \<noteq> JNull" by simp_all
  from assms show ?thesis
  proof
    assume "handler = handler1"
    thus ?thesis
      by (simp add: handler1_run[OF b] upstream_calls_def missing_prompt_def fetches_try_block
          split: sum.split)
  next
    assume "handler = handler2"
    thus ?thesis
      by (simp add: handler2_run[OF b] upstream_calls_def missing_prompt_def fetches_try_block
          split: sum.split)
  qed
qed

text \<open>The one upstream call of a run whose messages were built.\<close>

lemma handler1_accepted:
  assumes "body \<noteq> JUndefined" "body \<noteq> JNull" and "truthy (own_prop body ''prompt'')"
    and "buildMessages1 ns (default_to (own_prop body ''history'') (JArr []))
           (default_to (own_prop body ''state'') (JObj [])) = Inr msgs"
  shows "upstream_calls (handler1 cfg ns upstream body) =
    [request1 cfg (msgs @ [\<lparr>role = User, content = own_prop body ''prompt''\<rparr>])]"
  using assms(3,4)
  by (simp add: handler1_run[OF assms(1,2)] upstream_calls_def fetches_try_block)

lemma handler2_accepted:
  assumes "body \<noteq> JUndefined" "body \<noteq> JNull" and "truthy (own_prop body ''prompt'')"
    and "buildMessages2 ns (default_to (own_prop body ''history'') (JArr []))
           (default_to (own_prop body ''state'') (JObj [])) = Inr msgs"
  shows "upstream_calls (handler2 cfg ns upstream body) =
    [request2 cfg (msgs @ [\<lparr>role = User, content = own_prop body ''prompt''\<rparr>])]"
  using assms(3,4)
  by (simp add: handler2_run[OF assms(1,2)] upstream_calls_def fetches_try_block)

lemma try_block_never_escapes: "outcome (try_block upstream evs req) \<noteq> Escaped e"
  by (simp add: try_block_def Let_def outcome_caught split: sum.split)
section \<open>Validation of the prompt\<close>

text \<open>
  C1. A request whose \<^verbatim>\<open>prompt\<close> is missing or is the empty string is answered, by either
  variant, with status 400 and the body \<^verbatim>\<open>{error: "Missing prompt"}\<close>; the run has no
  effect at all, so the upstream is never called; and the whole result is the same for
  any two such requests, whatever their \<^verbatim>\<open>history\<close> and \<^verbatim>\<open>state\<close>. The body is what
  \<^verbatim>\<open>express.json()\<close> hands over, which is never \<^verbatim>\<open>null\<close> or \<^verbatim>\<open>undefined\<close>.
\<close>

theorem missing_prompt_rejected:
  assumes "handler = handler1 \<or> handler = handler2"
    and "body \<noteq> JUndefined" "body \<noteq> JNull"
    and "own_prop body ''prompt'' = JUndefined \<or> own_prop body ''prompt'' = JStr ''''"
  shows "handler cfg ns upstream body =
           \<lparr>effects = [], outcome = Responded 400 (JObj [(''error'', JStr ''Missing prompt'')])\<rparr>
       \<and> upstream_calls (handler cfg ns upstream body) = []
       \<and> (body' \<noteq> JUndefined \<and> body' \<noteq> JNull \<and>
            (own_prop body' ''prompt'' = JUndefined \<or> own_prop body' ''prompt'' = JStr '''')
          \<longrightarrow> handler cfg ns upstream body' = handler cfg ns upstream body)"
proof -
  have f: "\<not> truthy (own_prop body ''prompt'')" using assms(4) by auto
  have r: "handler cfg ns upstream body = missing_prompt"
    by (rule handler_falsy[OF assms(1-3) f])
  have "handler cfg ns upstream body' = missing_prompt"
    if "body' \<noteq> JUndefined" "body' \<noteq> JNull"
      "own_prop body' ''prompt'' = JUndefined \<or> own_prop body' ''prompt'' = JStr ''''"
  proof -
    have "\<not> truthy (own_prop body' ''prompt'')" using that(3) by auto
    from handler_falsy[OF assms(1) that(1,2) this] show ?thesis .
  qed
  with r show ?thesis
    by (simp add: missing_prompt_def upstream_calls_def)
qed

theorem missing_prompt_rejected_witness:
  "handler1 no_env no_numbers (throwing (Error ''offline''))
      (JObj [(''history'', JNum 5), (''state'', JNull)]) =
     \<lparr>effects = [], outcome = Responded 400 (JObj [(''error'', JStr ''Missing prompt'')])\<rparr>
   \<and> handler2 no_env no_numbers (throwing (Error ''offline''))
      (JObj [(''prompt'', JStr ''''), (''history'', JArr [JStr ''make it blue''])]) =
     handler2 no_env no_numbers (throwing (Error ''offline''))
      (JObj [(''state'', JObj [(''html'', JStr ''<p>hi</p>'')]), (''prompt'', JStr '''')])"
  using
    missing_prompt_rejected[where handler = handler1 and cfg = no_env and ns = no_numbers
      and upstream = "throwing (Error ''offline'')"
      and body = "JObj [(''history'', JNum 5), (''state'', JNull)]"]
    missing_prompt_rejected[where handler = handler2 and cfg = no_env and ns = no_numbers
      and upstream = "throwing (Error ''offline'')"
      and body = "JObj [(''state'', JObj [(''html'', JStr ''<p>hi</p>'')]), (''prompt'', JStr '''')]"
      and body' = "JObj [(''prompt'', JStr ''''), (''history'', JArr [JStr ''make it blue''])]"]
  by simp

section \<open>The history replay\<close>

text \<open>
  C2. For a history that is a list of strings \<open>hs\<close>: whenever \<^verbatim>\<open>buildMessages\<close> returns, the
  replay portion of the list (after the leading system message; in variant 2 also before
  the trailing state message) has exactly \<open>2 * length hs\<close> messages, at position \<open>2 * i\<close> a
  user message whose content is the \<open>i\<close>-th history entry, at position \<open>2 * i + 1\<close> an
  assistant message whose content is \<^verbatim>\<open>"Request completed"\<close>; and it does return for every
  state of the data model's shape.
\<close>

theorem history_replay_alternates:
  "(state_fields st h c j \<longrightarrow>
      (\<exists>msgs. buildMessages1 ns (JArr (map JStr hs)) st = Inr msgs) \<and>
      (\<exists>msgs. buildMessages2 ns (JArr (map JStr hs)) st = Inr msgs))
   \<and> (buildMessages1 ns (JArr (map JStr hs)) st = Inr msgs1 \<longrightarrow>
        (\<exists>sys rp. msgs1 = [sys] @ rp
            \<and> role sys = System \<and> length rp = 2 * length hs
            \<and> (\<forall>i < length hs.
                  rp ! (2 * i) = \<lparr>role = User, content = JStr (hs ! i)\<rparr> \<and>
                  rp ! (2 * i + 1) = \<lparr>role = Assistant, content = JStr ''Request completed''\<rparr>)))
   \<and> (buildMessages2 ns (JArr (map JStr hs)) st = Inr msgs2 \<longrightarrow>
        (\<exists>sys rp st_msg. msgs2 = [sys] @ rp @ [st_msg]
            \<and> role sys = System \<and> role st_msg = System \<and> length rp = 2 * length hs
            \<and> (\<forall>i < length hs.
                  rp ! (2 * i) = \<lparr>role = User, content = JStr (hs ! i)\<rparr> \<and>
                  rp ! (2 * i + 1) = \<lparr>role = Assistant, content = JStr ''Request completed''\<rparr>)))"
proof -
  let ?rp = "spec_replay (map JStr hs)"
  have len: "length ?rp = 2 * length hs" by (simp add: length_spec_replay)
  have nth: "\<forall>i < length hs.
      ?rp ! (2 * i) = \<lparr>role = User, content = JStr (hs ! i)\<rparr> \<and>
      ?rp ! (2 * i + 1) = \<lparr>role = Assistant, content = JStr ''Request completed''\<rparr>"
    using nth_spec_replay[of _ "map JStr hs"] by simp
  have it: "iterate (default_to (JArr (map JStr hs)) (JArr [])) = Inr (map JStr hs)"
    by (simp add: default_to_def)
  have 0: "(\<exists>msgs. buildMessages1 ns (JArr (map JStr hs)) st = Inr msgs) \<and>
      (\<exists>msgs. buildMessages2 ns (JArr (map JStr hs)) st = Inr msgs)"
    if "state_fields st h c j"
    by (simp add: buildMessages1_fields[OF that] buildMessages2_fields[OF that] it)
  have 1: "\<exists>sys. msgs1 = [sys] @ ?rp \<and> role sys = System"
    if "buildMessages1 ns (JArr (map JStr hs)) st = Inr msgs1"
    using buildMessages1_returns[OF that] unfolding it by auto
  have 2: "\<exists>sys st_msg. msgs2 = [sys] @ ?rp @ [st_msg] \<and> role sys = System \<and> role st_msg = System"
    if "buildMessages2 ns (JArr (map JStr hs)) st = Inr msgs2"
    using buildMessages2_returns[OF that] unfolding it by auto
  from 0 1 2 len nth show ?thesis by blast
qed

theorem history_replay_alternates_witness:
  "state_fields (JObj [(''css'', JStr ''p { color: red }'')]) None (Some ''p { color: red }'') None
   \<and> (\<exists>sys rp st_msg.
        buildMessages2 no_numbers (JArr [JStr ''add a title'', JStr ''make it red''])
          (JObj [(''css'', JStr ''p { color: red }'')]) = Inr ([sys] @ rp @ [st_msg])
        \<and> length rp = 4
        \<and> rp ! 0 = \<lparr>role = User, content = JStr ''add a title''\<rparr>
        \<and> rp ! 1 = \<lparr>role = Assistant, content = JStr ''Request completed''\<rparr>
        \<and> rp ! 2 = \<lparr>role = User, content = JStr ''make it red''\<rparr>
        \<and> rp ! 3 = \<lparr>role = Assistant, content = JStr ''Request completed''\<rparr>)"
proof -
  let ?st = "JObj [(''css'', JStr ''p { color: red }'')]"
  let ?hs = "[''add a title'', ''make it red'']"
  have s: "state_fields ?st None (Some ''p { color: red }'') None"
    by (simp add: state_fields_def)
  note w = history_replay_alternates[where st = ?st and h = None
      and c = "Some ''p { color: red }''" and j = None and ns = no_numbers and hs = ?hs]
  from w s obtain msgs where m: "buildMessages2 no_numbers (JArr (map JStr ?hs)) ?st = Inr msgs"
    by blast
  with w[where ?msgs2.0 = msgs]
  have "\<exists>sys rp st_msg. msgs = [sys] @ rp @ [st_msg]
      \<and> role sys = System \<and> role st_msg = System \<and> length rp = 2 * length ?hs
      \<and> (\<forall>i < length ?hs.
            rp ! (2 * i) = \<lparr>role = User, content = JStr (?hs ! i)\<rparr> \<and>
            rp ! (2 * i + 1) = \<lparr>role = Assistant, content = JStr ''Request completed''\<rparr>)"
    by blast
  then obtain sys rp st_msg where
    b: "msgs = [sys] @ rp @ [st_msg]"
    and l: "length rp = 2 * length ?hs"
    and n: "\<forall>i < length ?hs.
              rp ! (2 * i) = \<lparr>role = User, content = JStr (?hs ! i)\<rparr> \<and>
              rp ! (2 * i + 1) = \<lparr>role = Assistant, content = JStr ''Request completed''\<rparr>"
    by blast
  from l have l: "length rp = 4" by simp
  from n[rule_format, of 0] n[rule_format, of 1]
  have "rp ! 0 = \<lparr>role = User, content = JStr ''add a title''\<rparr>"
    "rp ! 1 = \<lparr>role = Assistant, content = JStr ''Request completed''\<rparr>"
    "rp ! 2 = \<lparr>role = User, content = JStr ''make it red''\<rparr>"
    "rp ! 3 = \<lparr>role = Assistant, content = JStr ''Request completed''\<rparr>"
    by simp_all
  with s m b l show ?thesis by auto
qed

section \<open>Answers of the upstream\<close>

text \<open>
  C5. The upstream answers with a 2xx status (200 in particular) and a body that parses
  to \<open>data\<close>, either to the call the handler made, or to every call while the request has
  a truthy prompt and no exception leaves the handler. Then: if \<^verbatim>\<open>data.choices\<close> is an
  array whose first element has a \<^verbatim>\<open>message\<close> whose \<^verbatim>\<open>content\<close> is the string \<open>X\<close>, the
  handler responds 200 with \<^verbatim>\<open>{reply: X}\<close>; if \<^verbatim>\<open>choices\<close> is missing, or is the empty array,
  or the first choice has no \<^verbatim>\<open>message\<close>, or the message no \<^verbatim>\<open>content\<close> (or \<^verbatim>\<open>null\<close> for
  it), it responds 200 with \<^verbatim>\<open>{reply: ""}\<close>.
\<close>

theorem reply_extracted:
  assumes "handler = handler1 \<or> handler = handler2"
    and "ok r" and "resp_json r = Inr data"
    and "Fetch req \<in> set (effects (handler cfg ns upstream body)) \<and> upstream req = Inr r
       \<or> (\<forall>q. upstream q = Inr r) \<and> body \<noteq> JUndefined \<and> body \<noteq> JNull \<and>
          truthy (own_prop body ''prompt'') \<and>
          (\<forall>e. outcome (handler cfg ns upstream body) \<noteq> Escaped e)"
  shows "(own_prop data ''choices'' = JArr (choice # others) \<and>
          own_prop (own_prop choice ''message'') ''content'' = JStr X
            \<longrightarrow> outcome (handler cfg ns upstream body) = Responded 200 (JObj [(''reply'', JStr X)]))
       \<and> (own_prop data ''choices'' = JUndefined \<or>
          own_prop data ''choices'' = JArr [] \<or>
          own_prop data ''choices'' = JArr (choice # others) \<and>
            (own_prop choice ''message'' = JUndefined \<or>
             own_prop (own_prop choice ''message'') ''content'' = JUndefined \<or>
             own_prop (own_prop choice ''message'') ''content'' = JNull)
            \<longrightarrow> outcome (handler cfg ns upstream body) = Responded 200 (JObj [(''reply'', JStr '''')]))"
proof -
  have "\<exists>evs req'. handler cfg ns upstream body = try_block upstream evs req' \<and>
      upstream req' = Inr r"
    using assms(4)
  proof
    assume a: "Fetch req \<in> set (effects (handler cfg ns upstream body)) \<and> upstream req = Inr r"
    with handler_fetched[OF assms(1), of req cfg ns upstream body] show ?thesis by blast
  next
    assume a: "(\<forall>q. upstream q = Inr r) \<and> body \<noteq> JUndefined \<and> body \<noteq> JNull \<and>
      truthy (own_prop body ''prompt'') \<and> (\<forall>e. outcome (handler cfg ns upstream body) \<noteq> Escaped e)"
    hence b: "body \<noteq> JUndefined" "body \<noteq> JNull" "truthy (own_prop body ''prompt'')"
      and n: "\<forall>e. outcome (handler cfg ns upstream body) \<noteq> Escaped e"
      and u: "\<forall>q. upstream q = Inr r" by simp_all
    from handler_truthy[OF assms(1) b, of cfg ns upstream] n
    obtain evs req' where "handler cfg ns upstream body = try_block upstream evs req'"
      by auto
    with u show ?thesis by blast
  qed
  then obtain evs req' where h: "handler cfg ns upstream body = try_block upstream evs req'"
    and u: "upstream req' = Inr r" by blast
  have o: "outcome (handler cfg ns upstream body) =
      Responded 200 (JObj [(''reply'',
        nullish (opt_get (opt_get (opt_index0 (opt_get data ''choices'')) ''message'') ''content'')
          (JStr ''''))])"
    unfolding h using try_block_reply[of upstream req' r data, OF u assms(2,3)] by simp
  have d: "opt_get data ''choices'' = own_prop data ''choices''"
    by (cases data) (simp_all add: opt_get_def)
  have c: "opt_get choice ''message'' = own_prop choice ''message''"
    by (cases choice) (simp_all add: opt_get_def)
  have m: "opt_get (own_prop choice ''message'') ''content'' =
      own_prop (own_prop choice ''message'') ''content''"
    by (cases "own_prop choice ''message''") (simp_all add: opt_get_def)
  show ?thesis
    unfolding o d
    by (auto simp: c m nullish_def opt_get_def)
qed

theorem reply_extracted_witness:
  "outcome (handler1 no_env no_numbers (responding completion_200) hi) =
     Responded 200 (JObj [(''reply'', JStr ''X'')])
   \<and> outcome (handler2 no_env no_numbers (responding completion_200) hi) =
     Responded 200 (JObj [(''reply'', JStr ''X'')])
   \<and> outcome (handler1 no_env no_numbers (responding no_choices_200) hi) =
     Responded 200 (JObj [(''reply'', JStr '''')])
   \<and> outcome (handler2 no_env no_numbers (responding no_choices_200) hi) =
     Responded 200 (JObj [(''reply'', JStr '''')])"
proof -
  have n: "\<forall>e. outcome (handler1 no_env no_numbers upstream hi) \<noteq> Escaped e"
    "\<forall>e. outcome (handler2 no_env no_numbers upstream hi) \<noteq> Escaped e" for upstream
    using hi_runs[of no_env no_numbers upstream] try_block_never_escapes by auto
  have b: "hi \<noteq> JUndefined" "hi \<noteq> JNull" "truthy (own_prop hi ''prompt'')"
    by (simp_all add: hi_def)
  let ?choice = "JObj [(''message'', JObj [(''role'', JStr ''assistant''), (''content'', JStr ''X'')])]"
  have x: "ok completion_200" "resp_json completion_200 = Inr (JObj [(''choices'', JArr [?choice])])"
    and y: "ok no_choices_200" "resp_json no_choices_200 = Inr (JObj [(''choices'', JArr [])])"
    by (simp_all add: completion_200_def no_choices_200_def ok_def)
  have u: "\<forall>q. responding r q = Inr r" for r by (simp add: responding_def)
  note w = reply_extracted[where cfg = no_env and ns = no_numbers and body = hi]
  have "outcome (handler1 no_env no_numbers (responding completion_200) hi) =
      Responded 200 (JObj [(''reply'', JStr ''X'')])"
    using w[where handler = handler1 and upstream = "responding completion_200"
        and choice = ?choice and others = "[]" and X = "''X''", OF _ x] u b n(1)
    by simp
  moreover have "outcome (handler2 no_env no_numbers (responding completion_200) hi) =
      Responded 200 (JObj [(''reply'', JStr ''X'')])"
    using w[where handler = handler2 and upstream = "responding completion_200"
        and choice = ?choice and others = "[]" and X = "''X''", OF _ x] u b n(2)
    by simp
  moreover have "outcome (handler1 no_env no_numbers (responding no_choices_200) hi) =
      Responded 200 (JObj [(''reply'', JStr '''')])"
    using w[where handler = handler1 and upstream = "responding no_choices_200", OF _ y] u b n(1)
    by simp
  moreover have "outcome (handler2 no_env no_numbers (responding no_choices_200) hi) =
      Responded 200 (JObj [(''reply'', JStr '''')])"
    using w[where handler = handler2 and upstream = "responding no_choices_200", OF _ y] u b n(2)
    by simp
  ultimately show ?thesis by blast
qed






section \<open>Exceptions before the try block\<close>

text \<open>
  C9. The request \<^verbatim>\<open>{"prompt": "hi", "history": 5}\<close> passes the validation of the prompt;
  \<^verbatim>\<open>buildMessages\<close>, called before the \<^verbatim>\<open>try\<close> block, throws at \<^verbatim>\<open>for (... of history)\<close>, and
  the exception leaves the handler: no response is sent, by either variant. The same
  happens for \<^verbatim>\<open>{"prompt": "hi", "state": null}\<close> at \<^verbatim>\<open>state.html\<close>.
\<close>

theorem non_iterable_history_escapes:
  "handler1 no_env no_numbers (throwing (Error ''offline'')) number_history =
     \<lparr>effects = [], outcome = Escaped (TypeError ''history is not iterable'')\<rparr>
   \<and> handler2 no_env no_numbers (throwing (Error ''offline'')) number_history =
     \<lparr>effects = [], outcome = Escaped (TypeError ''history is not iterable'')\<rparr>
   \<and> handler1 no_env no_numbers (throwing (Error ''offline'')) null_state =
     \<lparr>effects = [], outcome = Escaped (TypeError ''Cannot read properties of null (reading 'html')'')\<rparr>
   \<and> handler2 no_env no_numbers (throwing (Error ''offline'')) null_state =
     \<lparr>effects = [], outcome = Escaped (TypeError ''Cannot read properties of null (reading 'html')'')\<rparr>"
proof -
  have b: "number_history \<noteq> JUndefined" "number_history \<noteq> JNull"
    "null_state \<noteq> JUndefined" "null_state \<noteq> JNull"
    by (simp_all add: number_history_def null_state_def)
  have s: "state_fields (JObj []) None None None" by (simp add: state_fields_def)
  have h: "buildMessages1 ns (JNum 5) (JObj []) = Inl (TypeError ''history is not iterable'')"
    "buildMessages2 ns (JNum 5) (JObj []) = Inl (TypeError ''history is not iterable'')" for ns
    by (simp_all add: buildMessages1_fields[OF s] buildMessages2_fields[OF s] default_to_def)
  have n: "buildMessages1 ns (JArr []) JNull =
      Inl (TypeError ''Cannot read properties of null (reading 'html')'')"
    "buildMessages2 ns (JArr []) JNull =
      Inl (TypeError ''Cannot read properties of null (reading 'html')'')" for ns
    by (simp_all add: buildMessages1_def buildMessages2_def default_to_def substitution_def get_def)
  show ?thesis
    unfolding handler1_run[OF b(1,2)] handler2_run[OF b(1,2)]
      handler1_run[OF b(3,4)] handler2_run[OF b(3,4)]
    by (simp add: number_history_def null_state_def default_to_def h n)
qed

section \<open>The state in the messages\<close>

text \<open>
  C3, as the claim states it, fails on variant 1, whose template has no substitution for
  \<^verbatim>\<open>state.js\<close>: for a state without \<^verbatim>\<open>js\<close> its only message nowhere contains \<^verbatim>\<open>// none\<close>,
  and a state with \<^verbatim>\<open>js\<close> gives the very same message.
\<close>

theorem variant1_has_no_js_slot:
  "buildMessages1 no_numbers (JArr []) (JObj []) =
     Inr [\<lparr>role = System,
           content = JStr (join_lines (instructions1 @ [''<!-- none -->''] @ css_heading1
             @ [''/* none */''] @ closing1))\<rparr>]
   \<and> \<not> occurs_in ''// none''
       (join_lines (instructions1 @ [''<!-- none -->''] @ css_heading1 @ [''/* none */''] @ closing1))
   \<and> buildMessages1 no_numbers (JArr []) (JObj [(''js'', JStr ''alert(1)'')]) =
     buildMessages1 no_numbers (JArr []) (JObj [])"
proof -
  have s: "state_fields (JObj []) None None None"
    "state_fields (JObj [(''js'', JStr ''alert(1)'')]) None None (Some ''alert(1)'')"
    by (simp_all add: state_fields_def)
  have "\<not> occurs_in ''// none''
      (join_lines (instructions1 @ [''<!-- none -->''] @ css_heading1 @ [''/* none */''] @ closing1))"
    by (simp add: instructions1_def css_heading1_def closing1_def nb_hyphen_def en_dash_def)
  thus ?thesis
    by (simp add: buildMessages1_fields[OF s(1)] buildMessages1_fields[OF s(2)]
        default_to_def spec_replay_def)
qed

text \<open>
  C3, amended. Whenever \<^verbatim>\<open>buildMessages\<close> returns, whatever the state, the state-carrying
  system message is the template with one string in each slot, and field by field: a
  field that is absent or the empty string has the designated placeholder in its slot,
  a field that is a non-empty string is there verbatim, so that slot is never empty.
  Variant 1 has slots for \<^verbatim>\<open>html\<close> and \<^verbatim>\<open>css\<close> only, in its one system message (the line
  after \<^verbatim>\<open>```html\<close>, the line after \<^verbatim>\<open>```css\<close>), and reads nothing else of the state: two
  states, neither \<^verbatim>\<open>null\<close>, with the same \<^verbatim>\<open>html\<close> and \<^verbatim>\<open>css\<close> give the same result. Variant 2
  has slots for \<^verbatim>\<open>html\<close>, \<^verbatim>\<open>css\<close> and \<^verbatim>\<open>js\<close>, in the system message it puts after the replayed
  history. And \<^verbatim>\<open>buildMessages\<close> does return when the history iterates, the state is not
  \<^verbatim>\<open>null\<close> and the fields the variant reads are absent or strings.
\<close>

theorem state_slots_filled:
  "(buildMessages1 ns hist st = Inr msgs1 \<longrightarrow>
      (\<exists>html css rest.
          msgs1 = \<lparr>role = System,
                    content = JStr (join_lines (instructions1 @ [html] @ css_heading1
                      @ [css] @ closing1))\<rparr> # rest
        \<and> (own_prop st ''html'' = field h \<longrightarrow> html = spec_slot ''<!-- none -->'' h)
        \<and> (own_prop st ''css'' = field c \<longrightarrow> css = spec_slot ''/* none */'' c)))
   \<and> (buildMessages2 ns hist st = Inr msgs2 \<longrightarrow>
      (\<exists>html css js front.
          msgs2 = front @ [\<lparr>role = System,
                    content = JStr (join_lines (html_heading2 @ [html] @ css_heading2 @ [css]
                      @ js_heading2 @ [js] @ closing2))\<rparr>]
        \<and> (own_prop st ''html'' = field h \<longrightarrow> html = spec_slot ''<!-- none -->'' h)
        \<and> (own_prop st ''css'' = field c \<longrightarrow> css = spec_slot ''/* none */'' c)
        \<and> (own_prop st ''js'' = field j \<longrightarrow> js = spec_slot ''// none'' j)))
   \<and> (st \<noteq> JNull \<and> st' \<noteq> JNull \<and> own_prop st ''html'' = own_prop st' ''html'' \<and>
        own_prop st ''css'' = own_prop st' ''css''
        \<longrightarrow> buildMessages1 ns hist st = buildMessages1 ns hist st')
   \<and> (st \<noteq> JNull \<and> own_prop st ''html'' = field h \<and> own_prop st ''css'' = field c \<and>
        iterate (default_to hist (JArr [])) = Inr elems
        \<longrightarrow> buildMessages1 ns hist st =
             Inr (\<lparr>role = System,
                   content = JStr (join_lines (instructions1 @ [spec_slot ''<!-- none -->'' h]
                     @ css_heading1 @ [spec_slot ''/* none */'' c] @ closing1))\<rparr>
                  # spec_replay elems))
   \<and> (state_fields st h c j \<and> iterate (default_to hist (JArr [])) = Inr elems
        \<longrightarrow> buildMessages2 ns hist st =
             Inr (\<lparr>role = System, content = JStr system2\<rparr>
                  # spec_replay elems
                  @ [\<lparr>role = System,
                      content = JStr (join_lines (html_heading2 @ [spec_slot ''<!-- none -->'' h]
                        @ css_heading2 @ [spec_slot ''/* none */'' c]
                        @ js_heading2 @ [spec_slot ''// none'' j] @ closing2))\<rparr>]))
   \<and> spec_slot ''<!-- none -->'' h \<noteq> [] \<and> spec_slot ''/* none */'' c \<noteq> []
   \<and> spec_slot ''// none'' j \<noteq> []"
proof -
  let ?d = "default_to st (JObj [])"
  have 1: "\<exists>html css rest.
      msgs1 = \<lparr>role = System,
                content = JStr (join_lines (instructions1 @ [html] @ css_heading1
                  @ [css] @ closing1))\<rparr> # rest
      \<and> (own_prop st ''html'' = field h \<longrightarrow> html = spec_slot ''<!-- none -->'' h)
      \<and> (own_prop st ''css'' = field c \<longrightarrow> css = spec_slot ''/* none */'' c)"
    if "buildMessages1 ns hist st = Inr msgs1"
  proof -
    from that obtain html css elems
      where s: "substitution ns ?d ''html'' ''<!-- none -->'' = Inr html"
        "substitution ns ?d ''css'' ''/* none */'' = Inr css"
      and m: "msgs1 = [\<lparr>role = System, content = JStr (trim (system1 html css))\<rparr>]
        @ spec_replay elems"
      unfolding buildMessages1_Inr_iff by blast
    from m have "msgs1 = \<lparr>role = System,
        content = JStr (join_lines (instructions1 @ [html] @ css_heading1 @ [css] @ closing1))\<rparr>
        # spec_replay elems"
      by (simp add: trim_system1)
    with substitution_slot[OF s(1)] substitution_slot[OF s(2)] show ?thesis by blast
  qed
  have 2: "\<exists>html css js front.
      msgs2 = front @ [\<lparr>role = System,
                content = JStr (join_lines (html_heading2 @ [html] @ css_heading2 @ [css]
                  @ js_heading2 @ [js] @ closing2))\<rparr>]
      \<and> (own_prop st ''html'' = field h \<longrightarrow> html = spec_slot ''<!-- none -->'' h)
      \<and> (own_prop st ''css'' = field c \<longrightarrow> css = spec_slot ''/* none */'' c)
      \<and> (own_prop st ''js'' = field j \<longrightarrow> js = spec_slot ''// none'' j)"
    if "buildMessages2 ns hist st = Inr msgs2"
  proof -
    from that obtain html css js elems
      where s: "substitution ns ?d ''html'' ''<!-- none -->'' = Inr html"
        "substitution ns ?d ''css'' ''/* none */'' = Inr css"
        "substitution ns ?d ''js'' ''// none'' = Inr js"
      and m: "msgs2 = [\<lparr>role = System, content = JStr system2\<rparr>] @ spec_replay elems
        @ [\<lparr>role = System, content = JStr (state_text2 html css js)\<rparr>]"
      unfolding buildMessages2_Inr_iff by blast
    from m have "msgs2 = (\<lparr>role = System, content = JStr system2\<rparr> # spec_replay elems)
        @ [\<lparr>role = System,
            content = JStr (join_lines (html_heading2 @ [html] @ css_heading2 @ [css]
              @ js_heading2 @ [js] @ closing2))\<rparr>]"
      by (simp add: state_text2_def)
    with substitution_slot[OF s(1)] substitution_slot[OF s(2)] substitution_slot[OF s(3)]
    show ?thesis by blast
  qed
  have 3: "buildMessages1 ns hist st = buildMessages1 ns hist st'"
    if "st \<noteq> JNull \<and> st' \<noteq> JNull \<and> own_prop st ''html'' = own_prop st' ''html'' \<and>
        own_prop st ''css'' = own_prop st' ''css''"
    using that buildMessages1_reads_html_css[of st st'] by blast
  have 4: "buildMessages1 ns hist st =
      Inr (\<lparr>role = System,
            content = JStr (join_lines (instructions1 @ [spec_slot ''<!-- none -->'' h]
              @ css_heading1 @ [spec_slot ''/* none */'' c] @ closing1))\<rparr>
           # spec_replay elems)"
    if "st \<noteq> JNull \<and> own_prop st ''html'' = field h \<and> own_prop st ''css'' = field c \<and>
        iterate (default_to hist (JArr [])) = Inr elems"
    using that buildMessages1_html_css[of st h c hist elems ns] by blast
  have 5: "buildMessages2 ns hist st =
      Inr (\<lparr>role = System, content = JStr system2\<rparr>
           # spec_replay elems
           @ [\<lparr>role = System,
               content = JStr (join_lines (html_heading2 @ [spec_slot ''<!-- none -->'' h]
                 @ css_heading2 @ [spec_slot ''/* none */'' c]
                 @ js_heading2 @ [spec_slot ''// none'' j] @ closing2))\<rparr>])"
    if "state_fields st h c j \<and> iterate (default_to hist (JArr [])) = Inr elems"
  proof -
    from that have f: "state_fields st h c j"
      and i: "iterate (default_to hist (JArr [])) = Inr elems" by simp_all
    show ?thesis
      by (simp add: buildMessages2_fields[OF f] i system2_eq state_text2_def)
  qed
  have 6: "spec_slot p v \<noteq> []" if "p \<noteq> []" for p v
    using that by (cases v) simp_all
  have 7: "spec_slot ''<!-- none -->'' h \<noteq> []" "spec_slot ''/* none */'' c \<noteq> []"
    "spec_slot ''// none'' j \<noteq> []"
    by (simp_all add: 6)
  from 1 2 3 4 5 7 show ?thesis by blast
qed

theorem state_slots_filled_witness:
  "buildMessages1 no_numbers (JArr [])
       (JObj [(''html'', JStr ''<p>hi</p>''), (''css'', JStr ''''), (''js'', JNum 5)]) =
     Inr [\<lparr>role = System,
           content = JStr (join_lines (instructions1 @ [''<p>hi</p>''] @ css_heading1
             @ [''/* none */''] @ closing1))\<rparr>]
   \<and> (\<exists>css js front.
        buildMessages2 no_numbers (JArr []) (JObj [(''html'', JStr ''''), (''css'', JBool True)]) =
          Inr (front @ [\<lparr>role = System,
            content = JStr (join_lines (html_heading2 @ [''<!-- none -->''] @ css_heading2
              @ [css] @ js_heading2 @ [js] @ closing2))\<rparr>]))
   \<and> buildMessages2 no_numbers (JArr [])
       (JObj [(''html'', JStr ''<p>hi</p>''), (''css'', JStr '''')]) =
     Inr [\<lparr>role = System, content = JStr system2\<rparr>,
          \<lparr>role = System,
           content = JStr (join_lines (html_heading2 @ [''<p>hi</p>''] @ css_heading2
             @ [''/* none */''] @ js_heading2 @ [''// none''] @ closing2))\<rparr>]"
proof -
  let ?a = "JObj [(''html'', JStr ''<p>hi</p>''), (''css'', JStr ''''), (''js'', JNum 5)]"
  let ?b = "JObj [(''html'', JStr ''''), (''css'', JBool True)]"
  let ?c = "JObj [(''html'', JStr ''<p>hi</p>''), (''css'', JStr '''')]"
  have 1: "buildMessages1 no_numbers (JArr []) ?a =
      Inr [\<lparr>role = System,
            content = JStr (join_lines (instructions1 @ [''<p>hi</p>''] @ css_heading1
              @ [''/* none */''] @ closing1))\<rparr>]"
    using state_slots_filled[where st = ?a and h = "Some ''<p>hi</p>''" and c = "Some ''''"
        and hist = "JArr []" and elems = "[]" and ns = no_numbers]
    by (simp add: default_to_def spec_replay_def)
  obtain msgs where m: "buildMessages2 no_numbers (JArr []) ?b = Inr msgs"
    by (simp add: buildMessages2_Inr_iff substitution_def get_def default_to_def or_else_def)
  from state_slots_filled[where st = ?b and h = "Some ''''" and ns = no_numbers
      and hist = "JArr []" and ?msgs2.0 = msgs] m
  have "\<exists>html css js front.
      msgs = front @ [\<lparr>role = System,
        content = JStr (join_lines (html_heading2 @ [html] @ css_heading2 @ [css]
          @ js_heading2 @ [js] @ closing2))\<rparr>]
      \<and> (own_prop ?b ''html'' = field (Some '''') \<longrightarrow> html = spec_slot ''<!-- none -->'' (Some ''''))"
    by blast
  then obtain html css js front where
    "msgs = front @ [\<lparr>role = System,
        content = JStr (join_lines (html_heading2 @ [html] @ css_heading2 @ [css]
          @ js_heading2 @ [js] @ closing2))\<rparr>]"
    and "html = ''<!-- none -->''"
    by auto
  with m have 2: "\<exists>css js front.
      buildMessages2 no_numbers (JArr []) ?b =
        Inr (front @ [\<lparr>role = System,
          content = JStr (join_lines (html_heading2 @ [''<!-- none -->''] @ css_heading2
            @ [css] @ js_heading2 @ [js] @ closing2))\<rparr>])"
    by blast
  have 3: "buildMessages2 no_numbers (JArr []) ?c =
      Inr [\<lparr>role = System, content = JStr system2\<rparr>,
           \<lparr>role = System,
            content = JStr (join_lines (html_heading2 @ [''<p>hi</p>''] @ css_heading2
              @ [''/* none */''] @ js_heading2 @ [''// none''] @ closing2))\<rparr>]"
    using state_slots_filled[where st = ?c and h = "Some ''<p>hi</p>''" and c = "Some ''''"
        and j = None and hist = "JArr []" and elems = "[]" and ns = no_numbers]
    by (simp add: state_fields_def default_to_def spec_replay_def)
  from 1 2 3 show ?thesis by blast
qed

section \<open>The order of the messages sent\<close>

text \<open>
  C4, as the claim states it, fails on variant 1: the one upstream call of the run on
  \<^verbatim>\<open>edit_request\<close> sends four messages, the system message with the state in it, the
  replayed history, the prompt; the state comes before the history, and nothing stands
  between the history and the prompt.
\<close>

theorem variant1_state_precedes_history:
  "upstream_calls (handler1 no_env no_numbers (throwing (Error ''offline'')) edit_request) =
     [request1 no_env
        [\<lparr>role = System,
          content = JStr (join_lines (instructions1 @ [''<button>Go</button>''] @ css_heading1
            @ [''/* none */''] @ closing1))\<rparr>,
         \<lparr>role = User, content = JStr ''add a button''\<rparr>,
         \<lparr>role = Assistant, content = JStr ''Request completed''\<rparr>,
         \<lparr>role = User, content = JStr ''make it red''\<rparr>]]"
proof -
  have a: "edit_request \<noteq> JUndefined" "edit_request \<noteq> JNull"
    "truthy (own_prop edit_request ''prompt'')"
    "iterate (default_to (own_prop edit_request ''history'') (JArr [])) = Inr [JStr ''add a button'']"
    "state_fields (own_prop edit_request ''state'') (Some ''<button>Go</button>'') None None"
    by (simp_all add: edit_request_def default_to_def state_fields_def)
  show ?thesis
    unfolding upstream_calls_def handler1_typed(2)[OF a refl] fetches_try_block
    by (simp add: edit_request_def spec_replay_def)
qed

text \<open>
  C4, amended. For a request with a truthy prompt, and a history and a state for which
  \<^verbatim>\<open>buildMessages\<close> returns, each variant calls the upstream exactly once, with the list
  \<^verbatim>\<open>buildMessages\<close> returned followed by one user message whose content is the prompt, the
  last of the list; \<^verbatim>\<open>buildMessages\<close> itself does not append the prompt. The list of
  variant 2 is: the system instructions, the replayed history, a system message with the
  current state (the template with what \<^verbatim>\<open>state.html\<close>, \<^verbatim>\<open>state.css\<close> and \<^verbatim>\<open>state.js\<close> give
  in its slots). The list of variant 1 is: one system message with the instructions and
  the current state, the replayed history. And \<^verbatim>\<open>buildMessages\<close> does return when the
  history iterates and the state has the data model's shape.
\<close>

theorem message_order:
  assumes "body \<noteq> JUndefined" "body \<noteq> JNull" and "truthy (own_prop body ''prompt'')"
    and "hist = default_to (own_prop body ''history'') (JArr [])"
    and "st = default_to (own_prop body ''state'') (JObj [])"
    and "last_msg = \<lparr>role = User, content = own_prop body ''prompt''\<rparr>"
  shows "(buildMessages1 ns hist st = Inr msgs1 \<longrightarrow>
            (\<exists>html css elems.
                substitution ns st ''html'' ''<!-- none -->'' = Inr html
              \<and> substitution ns st ''css'' ''/* none */'' = Inr css
              \<and> iterate hist = Inr elems
              \<and> msgs1 = [\<lparr>role = System, content = JStr (trim (system1 html css))\<rparr>]
                  @ spec_replay elems)
          \<and> upstream_calls (handler1 cfg ns upstream body) = [request1 cfg (msgs1 @ [last_msg])])
       \<and> (buildMessages2 ns hist st = Inr msgs2 \<longrightarrow>
            (\<exists>html css js elems.
                substitution ns st ''html'' ''<!-- none -->'' = Inr html
              \<and> substitution ns st ''css'' ''/* none */'' = Inr css
              \<and> substitution ns st ''js'' ''// none'' = Inr js
              \<and> iterate hist = Inr elems
              \<and> msgs2 = [\<lparr>role = System, content = JStr system2\<rparr>] @ spec_replay elems
                  @ [\<lparr>role = System, content = JStr (state_text2 html css js)\<rparr>])
          \<and> upstream_calls (handler2 cfg ns upstream body) = [request2 cfg (msgs2 @ [last_msg])])
       \<and> (iterate hist = Inr elems \<and> state_fields (own_prop body ''state'') h c j \<longrightarrow>
            buildMessages1 ns hist st =
              Inr ([\<lparr>role = System,
                     content = JStr (trim (system1 (spec_slot ''<!-- none -->'' h)
                       (spec_slot ''/* none */'' c)))\<rparr>] @ spec_replay elems)
          \<and> buildMessages2 ns hist st =
              Inr ([\<lparr>role = System, content = JStr system2\<rparr>] @ spec_replay elems
                @ [\<lparr>role = System,
                    content = JStr (state_text2 (spec_slot ''<!-- none -->'' h)
                      (spec_slot ''/* none */'' c) (spec_slot ''// none'' j))\<rparr>]))"
proof -
  have d: "default_to st (JObj []) = st" "default_to hist (JArr []) = hist"
    unfolding assms(4,5) by (simp_all add: default_to_idem)
  have 1: "(\<exists>html css elems.
        substitution ns st ''html'' ''<!-- none -->'' = Inr html
      \<and> substitution ns st ''css'' ''/* none */'' = Inr css
      \<and> iterate hist = Inr elems
      \<and> msgs1 = [\<lparr>role = System, content = JStr (trim (system1 html css))\<rparr>]
          @ spec_replay elems)
    \<and> upstream_calls (handler1 cfg ns upstream body) = [request1 cfg (msgs1 @ [last_msg])]"
    if b: "buildMessages1 ns hist st = Inr msgs1"
  proof
    from b show "\<exists>html css elems.
        substitution ns st ''html'' ''<!-- none -->'' = Inr html
      \<and> substitution ns st ''css'' ''/* none */'' = Inr css
      \<and> iterate hist = Inr elems
      \<and> msgs1 = [\<lparr>role = System, content = JStr (trim (system1 html css))\<rparr>]
          @ spec_replay elems"
      unfolding buildMessages1_Inr_iff d .
    from b show "upstream_calls (handler1 cfg ns upstream body) = [request1 cfg (msgs1 @ [last_msg])]"
      unfolding assms(4,5,6) by (rule handler1_accepted[OF assms(1-3)])
  qed
  have 2: "(\<exists>html css js elems.
        substitution ns st ''html'' ''<!-- none -->'' = Inr html
      \<and> substitution ns st ''css'' ''/* none */'' = Inr css
      \<and> substitution ns st ''js'' ''// none'' = Inr js
      \<and> iterate hist = Inr elems
      \<and> msgs2 = [\<lparr>role = System, content = JStr system2\<rparr>] @ spec_replay elems
          @ [\<lparr>role = System, content = JStr (state_text2 html css js)\<rparr>])
    \<and> upstream_calls (handler2 cfg ns upstream body) = [request2 cfg (msgs2 @ [last_msg])]"
    if b: "buildMessages2 ns hist st = Inr msgs2"
  proof
    from b show "\<exists>html css js elems.
        substitution ns st ''html'' ''<!-- none -->'' = Inr html
      \<and> substitution ns st ''css'' ''/* none */'' = Inr css
      \<and> substitution ns st ''js'' ''// none'' = Inr js
      \<and> iterate hist = Inr elems
      \<and> msgs2 = [\<lparr>role = System, content = JStr system2\<rparr>] @ spec_replay elems
          @ [\<lparr>role = System, content = JStr (state_text2 html css js)\<rparr>]"
      unfolding buildMessages2_Inr_iff d .
    from b show "upstream_calls (handler2 cfg ns upstream body) = [request2 cfg (msgs2 @ [last_msg])]"
      unfolding assms(4,5,6) by (rule handler2_accepted[OF assms(1-3)])
  qed
  have 3: "buildMessages1 ns hist st =
        Inr ([\<lparr>role = System,
               content = JStr (trim (system1 (spec_slot ''<!-- none -->'' h)
                 (spec_slot ''/* none */'' c)))\<rparr>] @ spec_replay elems)
    \<and> buildMessages2 ns hist st =
        Inr ([\<lparr>role = System, content = JStr system2\<rparr>] @ spec_replay elems
          @ [\<lparr>role = System,
              content = JStr (state_text2 (spec_slot ''<!-- none -->'' h)
                (spec_slot ''/* none */'' c) (spec_slot ''// none'' j))\<rparr>])"
    if "iterate hist = Inr elems \<and> state_fields (own_prop body ''state'') h c j"
  proof -
    from that have i: "iterate (default_to (own_prop body ''history'') (JArr [])) = Inr elems"
      and f: "state_fields (own_prop body ''state'') h c j"
      unfolding assms(4) by simp_all
    show ?thesis
      unfolding assms(4,5)
        handler1_typed(1)[OF assms(1-3) i f refl] handler2_typed(1)[OF assms(1-3) i f refl]
      by (simp add: trim_system1 system2_eq)
  qed
  from 1 2 3 show ?thesis by blast
qed

theorem message_order_witness:
  "upstream_calls (handler2 no_env no_numbers (throwing (Error ''offline'')) edit_request) =
     [request2 no_env
        [\<lparr>role = System, content = JStr system2\<rparr>,
         \<lparr>role = User, content = JStr ''add a button''\<rparr>,
         \<lparr>role = Assistant, content = JStr ''Request completed''\<rparr>,
         \<lparr>role = System,
          content = JStr (state_text2 ''<button>Go</button>'' ''/* none */'' ''// none'')\<rparr>,
         \<lparr>role = User, content = JStr ''make it red''\<rparr>]]
   \<and> upstream_calls (handler2 no_env no_numbers (throwing (Error ''offline'')) loose_request) =
     [request2 no_env
        [\<lparr>role = System, content = JStr system2\<rparr>,
         \<lparr>role = User, content = JStr ''add a button''\<rparr>,
         \<lparr>role = Assistant, content = JStr ''Request completed''\<rparr>,
         \<lparr>role = System, content = JStr (state_text2 ''true'' ''/* none */'' ''// none'')\<rparr>,
         \<lparr>role = User, content = JStr ''make it red''\<rparr>]]
   \<and> upstream_calls (handler1 no_env no_numbers (throwing (Error ''offline'')) loose_request) =
     [request1 no_env
        [\<lparr>role = System, content = JStr (trim (system1 ''true'' ''/* none */''))\<rparr>,
         \<lparr>role = User, content = JStr ''add a button''\<rparr>,
         \<lparr>role = Assistant, content = JStr ''Request completed''\<rparr>,
         \<lparr>role = User, content = JStr ''make it red''\<rparr>]]"
proof -
  let ?up = "throwing (Error ''offline'')"
  let ?H = "JArr [JStr ''add a button'']"
  let ?u = "\<lparr>role = User, content = JStr ''add a button''\<rparr>"
  let ?a = "\<lparr>role = Assistant, content = JStr ''Request completed''\<rparr>"
  let ?p = "\<lparr>role = User, content = JStr ''make it red''\<rparr>"
  have e: "edit_request \<noteq> JUndefined" "edit_request \<noteq> JNull"
    "truthy (own_prop edit_request ''prompt'')"
    "default_to (own_prop edit_request ''history'') (JArr []) = ?H"
    "default_to (own_prop edit_request ''state'') (JObj []) = JObj [(''html'', JStr ''<button>Go</button>'')]"
    "own_prop edit_request ''prompt'' = JStr ''make it red''"
    "state_fields (own_prop edit_request ''state'') (Some ''<button>Go</button>'') None None"
    by (simp_all add: edit_request_def default_to_def state_fields_def)
  have l: "loose_request \<noteq> JUndefined" "loose_request \<noteq> JNull"
    "truthy (own_prop loose_request ''prompt'')"
    "default_to (own_prop loose_request ''history'') (JArr []) = ?H"
    "default_to (own_prop loose_request ''state'') (JObj []) = JObj [(''html'', JBool True)]"
    "own_prop loose_request ''prompt'' = JStr ''make it red''"
    by (simp_all add: loose_request_def default_to_def)
  note we = message_order[OF e(1-3) refl refl refl, unfolded e(4,5,6),
      where ns = no_numbers and cfg = no_env and upstream = ?up]
  note wl = message_order[OF l(1-3) refl refl refl, unfolded l(4,5,6),
      where ns = no_numbers and cfg = no_env and upstream = ?up]
  have "buildMessages2 no_numbers ?H (JObj [(''html'', JStr ''<button>Go</button>'')]) =
      Inr [\<lparr>role = System, content = JStr system2\<rparr>, ?u, ?a,
           \<lparr>role = System,
            content = JStr (state_text2 ''<button>Go</button>'' ''/* none */'' ''// none'')\<rparr>]"
    using we[where elems = "[JStr ''add a button'']" and h = "Some ''<button>Go</button>''"
        and c = None and j = None] e(7)
    by (simp add: spec_replay_def)
  with we have 1: "upstream_calls (handler2 no_env no_numbers ?up edit_request) =
      [request2 no_env ([\<lparr>role = System, content = JStr system2\<rparr>, ?u, ?a,
         \<lparr>role = System,
          content = JStr (state_text2 ''<button>Go</button>'' ''/* none */'' ''// none'')\<rparr>] @ [?p])]"
    by blast
  have "buildMessages2 no_numbers ?H (JObj [(''html'', JBool True)]) =
      Inr [\<lparr>role = System, content = JStr system2\<rparr>, ?u, ?a,
           \<lparr>role = System, content = JStr (state_text2 ''true'' ''/* none */'' ''// none'')\<rparr>]"
    by (simp add: buildMessages2_Inr_iff substitution_def get_def default_to_def or_else_def
        spec_replay_def)
  with wl have 2: "upstream_calls (handler2 no_env no_numbers ?up loose_request) =
      [request2 no_env ([\<lparr>role = System, content = JStr system2\<rparr>, ?u, ?a,
         \<lparr>role = System, content = JStr (state_text2 ''true'' ''/* none */'' ''// none'')\<rparr>]
         @ [?p])]"
    by blast
  have "buildMessages1 no_numbers ?H (JObj [(''html'', JBool True)]) =
      Inr [\<lparr>role = System, content = JStr (trim (system1 ''true'' ''/* none */''))\<rparr>, ?u, ?a]"
    by (simp add: buildMessages1_Inr_iff substitution_def get_def default_to_def or_else_def
        spec_replay_def)
  with wl have 3: "upstream_calls (handler1 no_env no_numbers ?up loose_request) =
      [request1 no_env ([\<lparr>role = System,
          content = JStr (trim (system1 ''true'' ''/* none */''))\<rparr>, ?u, ?a] @ [?p])]"
    by blast
  from 1 2 3 show ?thesis by simp
qed

section \<open>Truthiness of the prompt\<close>

text \<open>
  C10. The validation is \<^verbatim>\<open>if (!prompt)\<close>. A prompt that is missing, the empty string,
  \<^verbatim>\<open>null\<close>, \<^verbatim>\<open>0\<close> or \<^verbatim>\<open>false\<close> gets the 400 response and nothing else happens. Any other
  prompt, of whatever type, is not answered 400; every upstream call of the run sends a
  list whose last message is the user message with that very value as content; and when
  the history iterates and the state has the data model's shape, there is exactly one
  such call.
\<close>

theorem prompt_truthiness_only:
  assumes "handler = handler1 \<or> handler = handler2"
    and "body \<noteq> JUndefined" "body \<noteq> JNull"
  shows "(own_prop body ''prompt'' \<in> {JUndefined, JStr '''', JNull, JNum 0, JBool False} \<longrightarrow>
            handler cfg ns upstream body =
              \<lparr>effects = [], outcome = Responded 400 (JObj [(''error'', JStr ''Missing prompt'')])\<rparr>)
       \<and> (own_prop body ''prompt'' \<notin> {JUndefined, JStr '''', JNull, JNum 0, JBool False} \<longrightarrow>
            (\<forall>b. outcome (handler cfg ns upstream body) \<noteq> Responded 400 b)
          \<and> (\<forall>req. Fetch req \<in> set (effects (handler cfg ns upstream body)) \<longrightarrow>
                (\<exists>front. messages (payload req) =
                   front @ [\<lparr>role = User, content = own_prop body ''prompt''\<rparr>]))
          \<and> (iterate (default_to (own_prop body ''history'') (JArr [])) = Inr elems \<and>
             state_fields (own_prop body ''state'') h c j \<longrightarrow>
                (\<exists>req. upstream_calls (handler cfg ns upstream body) = [req])))"
proof (intro conjI impI)
  assume "own_prop body ''prompt'' \<in> {JUndefined, JStr '''', JNull, JNum 0, JBool False}"
  hence "\<not> truthy (own_prop body ''prompt'')" by (simp add: truthy_iff)
  from handler_falsy[OF assms this]
  show "handler cfg ns upstream body =
      \<lparr>effects = [], outcome = Responded 400 (JObj [(''error'', JStr ''Missing prompt'')])\<rparr>"
    by (simp add: missing_prompt_def)
next
  assume "own_prop body ''prompt'' \<notin> {JUndefined, JStr '''', JNull, JNum 0, JBool False}"
  hence t: "truthy (own_prop body ''prompt'')" by (simp add: truthy_iff)
  let ?r = "handler cfg ns upstream body"
  let ?p = "\<lparr>role = User, content = own_prop body ''prompt''\<rparr>"
  from handler_truthy[OF assms t, of cfg ns upstream]
  have w: "(\<exists>e. ?r = \<lparr>effects = [], outcome = Escaped e\<rparr>) \<or>
    (\<exists>msgs evs req. fetches evs = [] \<and> ?r = try_block upstream evs req \<and>
       messages (payload req) = msgs @ [?p])" .
  show "\<forall>b. outcome ?r \<noteq> Responded 400 b"
    using w try_block_never_400 by auto
  show "\<forall>req. Fetch req \<in> set (effects ?r) \<longrightarrow> (\<exists>front. messages (payload req) = front @ [?p])"
  proof (intro allI impI)
    fix req assume f: "Fetch req \<in> set (effects ?r)"
    with w obtain msgs evs req' where e: "fetches evs = []"
      and r: "?r = try_block upstream evs req'" and m: "messages (payload req') = msgs @ [?p]"
      by auto
    from mem_fetches[OF f] have "req = req'" unfolding r fetches_try_block e by simp
    with m show "\<exists>front. messages (payload req) = front @ [?p]" by blast
  qed
next
  assume "own_prop body ''prompt'' \<notin> {JUndefined, JStr '''', JNull, JNum 0, JBool False}"
  hence t: "truthy (own_prop body ''prompt'')" by (simp add: truthy_iff)
  assume "iterate (default_to (own_prop body ''history'') (JArr [])) = Inr elems \<and>
    state_fields (own_prop body ''state'') h c j"
  hence i: "iterate (default_to (own_prop body ''history'') (JArr [])) = Inr elems"
    and s: "state_fields (own_prop body ''state'') h c j" by simp_all
  from assms(1) show "\<exists>req. upstream_calls (handler cfg ns upstream body) = [req]"
  proof
    assume "handler = handler1"
    thus ?thesis
      unfolding upstream_calls_def
      by (simp add: handler1_typed(2)[OF assms(2,3) t i s refl] fetches_try_block)
  next
    assume "handler = handler2"
    thus ?thesis
      unfolding upstream_calls_def
      by (simp add: handler2_typed(2)[OF assms(2,3) t i s refl] fetches_try_block)
  qed
qed

theorem prompt_truthiness_only_witness:
  "handler1 no_env no_numbers (throwing (Error ''offline'')) (JObj [(''prompt'', JNum 0)]) =
     \<lparr>effects = [], outcome = Responded 400 (JObj [(''error'', JStr ''Missing prompt'')])\<rparr>
   \<and> (\<exists>req front.
        upstream_calls (handler2 no_env no_numbers (throwing (Error ''offline''))
          (JObj [(''prompt'', JArr [JNum 1, JNum 2])])) = [req]
        \<and> messages (payload req) = front @ [\<lparr>role = User, content = JArr [JNum 1, JNum 2]\<rparr>])"
proof -
  let ?up = "throwing (Error ''offline'')"
  let ?b = "JObj [(''prompt'', JArr [JNum 1, JNum 2])]"
  have 1: "handler1 no_env no_numbers ?up (JObj [(''prompt'', JNum 0)]) =
      \<lparr>effects = [], outcome = Responded 400 (JObj [(''error'', JStr ''Missing prompt'')])\<rparr>"
    using prompt_truthiness_only[where handler = handler1 and body = "JObj [(''prompt'', JNum 0)]"
        and cfg = no_env and ns = no_numbers and upstream = ?up]
    by simp
  note w = prompt_truthiness_only[where handler = handler2 and body = ?b
      and cfg = no_env and ns = no_numbers and upstream = ?up and elems = "[]"
      and h = None and c = None and j = None]
  from w obtain req where c: "upstream_calls (handler2 no_env no_numbers ?up ?b) = [req]"
    by (auto simp: default_to_def state_fields_def)
  hence "Fetch req \<in> set (effects (handler2 no_env no_numbers ?up ?b))"
    unfolding upstream_calls_def using fetches_mem[of req] by simp
  with w obtain front
    where "messages (payload req) = front @ [\<lparr>role = User, content = JArr [JNum 1, JNum 2]\<rparr>]"
    by auto
  with 1 c show ?thesis by blast
qed

end
